theory Spec2Isabelle
  imports Complex_Main
begin

section \<open>Shop (economy)\<close>

text \<open>
  The shop of \<open>Shop.ts\<close>. A \<open>ShopItem\<close> keeps the fields the shop logic reads or
  writes; the display fields (name, description, icon) and the effect callback play no
  part in purchasing and are left out. Coin amounts and prices are whole numbers
  throughout the program (prices are integer literals, awards are \<open>10\<close>), so the
  JavaScript \<open>number\<close> is an \<open>int\<close> here.
\<close>

record ShopItem =
  item_id :: string
  price :: int
  unlocked :: bool
  purchased :: bool
  category :: string
  item_type :: "string option"
  item_value :: "string option"

record Shop =
  items :: "ShopItem list"
  coins :: int

definition mkItem :: "string \<Rightarrow> int \<Rightarrow> string \<Rightarrow> string option \<Rightarrow> string option \<Rightarrow> ShopItem" where
  "mkItem i p c t v =
     \<lparr>item_id = i, price = p, unlocked = True, purchased = False, category = c,
      item_type = t, item_value = v\<rparr>"

text \<open>The catalogue built by \<open>initializeItems\<close>, in source order.\<close>

definition initializeItems :: "ShopItem list" where
  "initializeItems =
    [mkItem ''jump_boost'' 100 ''powerup'' None None,
     mkItem ''coin_magnet'' 150 ''powerup'' None None,
     mkItem ''shield'' 200 ''powerup'' None None,
     mkItem ''crown'' 500 ''cosmetic'' None None,
     mkItem ''beanie'' 300 ''cosmetic'' None None,
     mkItem ''head_start'' 200 ''booster'' None None,
     mkItem ''coin_doubler'' 500 ''booster'' None None,
     mkItem ''shoes_red_sneakers'' 250 ''shoes'' (Some ''shoes'') (Some ''red_sneakers''),
     mkItem ''shoes_blue_boots'' 350 ''shoes'' (Some ''shoes'') (Some ''blue_boots''),
     mkItem ''shoes_golden_sandals'' 500 ''shoes'' (Some ''shoes'') (Some ''golden_sandals''),
     mkItem ''skin_rainbow'' 400 ''skins'' (Some ''skin'') (Some ''rainbow''),
     mkItem ''skin_metal'' 450 ''skins'' (Some ''skin'') (Some ''metal''),
     mkItem ''skin_galaxy'' 600 ''skins'' (Some ''skin'') (Some ''galaxy'')]"

text \<open>
  \<open>new Shop(audioManager, initialCoins)\<close> with nothing stored under \<open>shopData\<close>.
\<close>

definition newShop :: "int \<Rightarrow> Shop" where
  "newShop initialCoins = \<lparr>items = initializeItems, coins = initialCoins\<rparr>"

text \<open>\<open>this.items.find((i) => i.id === itemId)\<close>: the first item with that id.\<close>

definition findItem :: "string \<Rightarrow> Shop \<Rightarrow> ShopItem option" where
  "findItem itemId s = find (\<lambda>i. item_id i = itemId) (items s)"

text \<open>
  \<open>item.purchased = true\<close> on the object \<open>find\<close> returned: the first item of the
  array with that id is the one mutated.
\<close>

fun markPurchased :: "string \<Rightarrow> ShopItem list \<Rightarrow> ShopItem list" where
  "markPurchased k [] = []"
| "markPurchased k (i # rest) =
     (if item_id i = k then i\<lparr>purchased := True\<rparr> # rest else i # markPurchased k rest)"

definition addCoins :: "int \<Rightarrow> Shop \<Rightarrow> Shop" where
  "addCoins amount s = s\<lparr>coins := coins s + amount\<rparr>"

definition getItemsByCategory :: "string \<Rightarrow> Shop \<Rightarrow> ShopItem list" where
  "getItemsByCategory c s = filter (\<lambda>item. category item = c) (items s)"

text \<open>
  \<open>purchaseItem\<close> returns the boolean result together with the shop after the call.
  The changed-callback, the write to local storage and the sound do not touch the
  shop's own fields.
\<close>

definition purchaseItem :: "string \<Rightarrow> Shop \<Rightarrow> bool \<times> Shop" where
  "purchaseItem itemId s =
     (case findItem itemId s of
        None \<Rightarrow> (False, s)
      | Some item \<Rightarrow>
          if purchased item \<or> \<not> unlocked item then (False, s)
          else if coins s \<ge> price item
          then (True, s\<lparr>coins := coins s - price item,
                         items := markPurchased itemId (items s)\<rparr>)
          else (False, s))"

definition isItemPurchased :: "string \<Rightarrow> Shop \<Rightarrow> bool" where
  "isItemPurchased itemId s =
     (case findItem itemId s of None \<Rightarrow> False | Some item \<Rightarrow> purchased item)"

section \<open>Constants and vectors\<close>

text \<open>
  \<open>utils/constants.ts\<close>. Positions, velocities and times are JavaScript numbers; they
  are modelled as reals, so rounding, infinities and NaN are outside the model.
\<close>

definition LANE_WIDTH :: real where "LANE_WIDTH = 8"
definition TOTAL_LANES :: real where "TOTAL_LANES = 3"
definition GAME_SPEED :: real where "GAME_SPEED = 20"
definition JUMP_FORCE :: real where "JUMP_FORCE = 15"
definition GRAVITY :: real where "GRAVITY = 30"

text \<open>A \<open>THREE.Vector3\<close>: x is the lane axis, y the vertical, z the forward axis.\<close>

record vec3 =
  cx :: real
  cy :: real
  cz :: real

definition vec :: "real \<Rightarrow> real \<Rightarrow> real \<Rightarrow> vec3" where
  "vec a b c = \<lparr>cx = a, cy = b, cz = c\<rparr>"

text \<open>
  A call either returns or lets an exception escape. In both cases the object keeps the
  assignments made so far, so both outcomes carry the state the call leaves behind.
\<close>

datatype 'a outcome = Returned 'a | Threw 'a

definition stateAfter :: "'a outcome \<Rightarrow> 'a" where
  "stateAfter r = (case r of Returned a \<Rightarrow> a | Threw a \<Rightarrow> a)"

definition returned :: "'a outcome \<Rightarrow> bool" where
  "returned r = (case r of Returned a \<Rightarrow> True | Threw a \<Rightarrow> False)"

text \<open>
  What \<open>Player.getScreenPosition\<close> asks of the page and of the scene: whether
  \<open>document.querySelector("canvas")\<close> finds a canvas, and whether
  \<open>scene.getObjectByName("camera")\<close> finds an object of that name.
\<close>

record page =
  hasCanvas :: bool
  cameraInScene :: bool

text \<open>
  \<open>GameObject\<close>: every game object owns a position. Its mesh lives in the THREE scene
  graph and is not part of the model; what the program asks of THREE about meshes
  (bounding-box intersection) enters the model as an input where it is used.
\<close>

record GameObject =
  position :: vec3

section \<open>Player\<close>

record CharacterStats =
  jumpMultiplier :: real
  speedMultiplier :: real
  footSize :: real
  slipResistance :: real

text \<open>
  The fields of \<open>Player\<close> that carry game state. \<open>rotationY\<close> is
  \<open>characterGroup.rotation.y\<close>; the limb rotations written by the animation code are
  pure rendering state and are left out. The string-literal union types of the source
  (colour, character type, hairstyle, shoe and skin style) are strings.
\<close>

record Player = GameObject +
  lane :: int
  isJumping :: bool
  velocity :: vec3
  jumpSafetyTimer :: real
  isSlipping :: bool
  slipTimer :: real
  slipDuration :: real
  slipDirection :: real
  slipRotation :: real
  slipVelocity :: real
  runningCycle :: real
  rotationY :: real
  characterColor :: string
  characterType :: string
  currentHairstyle :: string
  stats :: CharacterStats
  jumpBoost :: real
  speedBoost :: real
  isShielded :: bool
  magnetRange :: real
  doubleJump :: bool
  hasDoubleJumped :: bool
  currentShoeStyle :: string
  currentSkinStyle :: string

definition mkStats :: "real \<Rightarrow> real \<Rightarrow> real \<Rightarrow> real \<Rightarrow> CharacterStats" where
  "mkStats j s f r =
     \<lparr>jumpMultiplier = j, speedMultiplier = s, footSize = f, slipResistance = r\<rparr>"

text \<open>\<open>new Player(scene, characterColor, hairstyleType, audioManager)\<close>.\<close>

definition newPlayer :: "string \<Rightarrow> string \<Rightarrow> Player" where
  "newPlayer color hairstyleType =
     \<lparr>position = vec 0 1 0,
      lane = 0, isJumping = False, velocity = vec 0 0 0, jumpSafetyTimer = 0,
      isSlipping = False, slipTimer = 0, slipDuration = 0, slipDirection = 0,
      slipRotation = 0, slipVelocity = 0, runningCycle = 0, rotationY = 0,
      characterColor = color, characterType = ''default'',
      currentHairstyle = hairstyleType,
      stats = mkStats 1.0 1.0 1.0 0.0,
      jumpBoost = 0, speedBoost = 0, isShielded = False, magnetRange = 0,
      doubleJump = False, hasDoubleJumped = False,
      currentShoeStyle = ''none'', currentSkinStyle = ''none''\<rparr>"

definition setCharacterType :: "string \<Rightarrow> Player \<Rightarrow> Player" where
  "setCharacterType t p =
     p\<lparr>characterType := t,
       stats :=
         (if t = ''speedy'' then mkStats 1.1 1.5 0.7 0.1
          else if t = ''jumper'' then mkStats 1.8 0.9 0.9 0.0
          else if t = ''purple_giant'' then mkStats 0.8 0.7 1.5 0.5
          else if t = ''golden_runner'' then mkStats 1.3 1.2 1.2 0.3
          else mkStats 1.0 1.0 1.0 0.0)\<rparr>"

definition setColor :: "string \<Rightarrow> Player \<Rightarrow> Player" where
  "setColor color p = p\<lparr>characterColor := color\<rparr>"

definition setHairstyle :: "string \<Rightarrow> Player \<Rightarrow> Player" where
  "setHairstyle h p = (if currentHairstyle p = h then p else p\<lparr>currentHairstyle := h\<rparr>)"

definition setShoeStyle :: "string \<Rightarrow> Player \<Rightarrow> Player" where
  "setShoeStyle v p = (if currentShoeStyle p = v then p else p\<lparr>currentShoeStyle := v\<rparr>)"

definition setSkinStyle :: "string \<Rightarrow> Player \<Rightarrow> Player" where
  "setSkinStyle v p = (if currentSkinStyle p = v then p else p\<lparr>currentSkinStyle := v\<rparr>)"

text \<open>
  The first part of \<open>Player.update\<close>: gravity and landing while jumping, the running
  cycle otherwise.
\<close>

definition updateJump :: "real \<Rightarrow> Player \<Rightarrow> Player" where
  "updateJump deltaTime p =
     (if isJumping p then
        (let vy = cy (velocity p) - GRAVITY * deltaTime;
             py = cy (position p) + vy * deltaTime
         in if py \<le> 1
            then p\<lparr>position := (position p)\<lparr>cy := 1\<rparr>,
                   velocity := (velocity p)\<lparr>cy := 0\<rparr>,
                   isJumping := False,
                   jumpSafetyTimer := 0.1\<rparr>
            else p\<lparr>position := (position p)\<lparr>cy := py\<rparr>,
                   velocity := (velocity p)\<lparr>cy := vy\<rparr>\<rparr>)
      else p\<lparr>runningCycle := runningCycle p + deltaTime * 10 * speedMultiplier (stats p)\<rparr>)"

text \<open>The second part: the landing safety timer runs down whatever the jump state.\<close>

definition updateSafetyTimer :: "real \<Rightarrow> Player \<Rightarrow> Player" where
  "updateSafetyTimer deltaTime p =
     (if jumpSafetyTimer p > 0
      then p\<lparr>jumpSafetyTimer := jumpSafetyTimer p - deltaTime\<rparr> else p)"

text \<open>
  \<open>const effectiveSlipVelocity = this.slipVelocity * (1 - this.stats.slipResistance)\<close>,
  the speed the slipping branch of \<open>update\<close> moves the player with.
\<close>

definition effectiveSlipVelocity :: "Player \<Rightarrow> real" where
  "effectiveSlipVelocity p = slipVelocity p * (1 - slipResistance (stats p))"

definition laneLimit :: real where
  "laneLimit = (LANE_WIDTH / TOTAL_LANES) * 1.5"

text \<open>The third part while slipping: spin, slide, decay, recovery, and the bounce.\<close>

definition updateSlip :: "real \<Rightarrow> Player \<Rightarrow> Player" where
  "updateSlip deltaTime p =
     (let t = slipTimer p + deltaTime;
          rot = slipRotation p + deltaTime * 15 * slipDirection p;
          nx = cx (position p) + effectiveSlipVelocity p * deltaTime * slipDirection p;
          p1 = p\<lparr>position := (position p)\<lparr>cx := nx\<rparr>,
                 slipTimer := t, slipRotation := rot, rotationY := rot,
                 slipVelocity := slipVelocity p * 0.98\<rparr>;
          p2 = (if t \<ge> slipDuration p1
                then p1\<lparr>isSlipping := False, slipTimer := 0, rotationY := 0\<rparr> else p1)
      in if nx > laneLimit
         then p2\<lparr>position := (position p2)\<lparr>cx := laneLimit\<rparr>,
                slipVelocity := slipVelocity p2 * 0.5, slipDirection := -1\<rparr>
         else if nx < - laneLimit
         then p2\<lparr>position := (position p2)\<lparr>cx := - laneLimit\<rparr>,
                slipVelocity := slipVelocity p2 * 0.5, slipDirection := 1\<rparr>
         else p2)"

text \<open>The third part when not slipping: easing towards the lane's x.\<close>

definition updateLane :: "real \<Rightarrow> Player \<Rightarrow> Player" where
  "updateLane deltaTime p =
     (let targetX = (real_of_int (lane p) * LANE_WIDTH) / TOTAL_LANES;
          laneChangeSpeed = 10 * speedMultiplier (stats p);
          nx = cx (position p) + (targetX - cx (position p)) * laneChangeSpeed * deltaTime;
          targetRotationY = (nx - targetX) * 0.5
      in p\<lparr>position := (position p)\<lparr>cx := nx\<rparr>,
           rotationY := rotationY p + (targetRotationY - rotationY p) * 10 * deltaTime\<rparr>)"

text \<open>\<open>Player.update(deltaTime)\<close>.\<close>

definition Player_update :: "real \<Rightarrow> Player \<Rightarrow> Player" where
  "Player_update deltaTime p =
     (let p1 = updateSafetyTimer deltaTime (updateJump deltaTime p)
      in if isSlipping p1 then updateSlip deltaTime p1 else updateLane deltaTime p1)"

definition moveLeft :: "Player \<Rightarrow> Player" where
  "moveLeft p = (if \<not> isSlipping p \<and> lane p > -1 then p\<lparr>lane := lane p - 1\<rparr> else p)"

definition moveRight :: "Player \<Rightarrow> Player" where
  "moveRight p = (if \<not> isSlipping p \<and> lane p < 1 then p\<lparr>lane := lane p + 1\<rparr> else p)"

definition jump :: "Player \<Rightarrow> Player" where
  "jump p =
     (if cy (position p) \<le> 1 \<or> (doubleJump p \<and> \<not> hasDoubleJumped p) then
        (let p1 = (if cy (position p) > 1 \<and> doubleJump p
                   then p\<lparr>hasDoubleJumped := True\<rparr> else p);
             jumpForce = JUMP_FORCE * (1 + jumpBoost p1)
         in p1\<lparr>velocity := (velocity p1)\<lparr>cy := jumpForce\<rparr>, isJumping := True\<rparr>)
      else p)"

definition isCurrentlyJumping :: "Player \<Rightarrow> bool" where
  "isCurrentlyJumping p \<longleftrightarrow> isJumping p \<or> jumpSafetyTimer p > 0"

text \<open>
  \<open>slip(freshness)\<close>. The second argument is the value \<open>Math.random()\<close> returns for
  the slip direction.
\<close>

definition slip :: "real \<Rightarrow> real \<Rightarrow> Player \<Rightarrow> Player" where
  "slip freshness rnd p =
     (if \<not> isSlipping p then
        (let resistanceFactor = 1 - slipResistance (stats p)
         in p\<lparr>isSlipping := True,
              slipTimer := 0,
              slipDuration := (1 + freshness * 2) * resistanceFactor,
              slipDirection := (if rnd > 0.5 then 1 else -1),
              slipRotation := 0,
              slipVelocity := (3 + freshness * 5) * resistanceFactor\<rparr>)
      else p)"

definition isCurrentlySlipping :: "Player \<Rightarrow> bool" where
  "isCurrentlySlipping p = isSlipping p"

definition reset :: "Player \<Rightarrow> Player" where
  "reset p =
     p\<lparr>lane := 0,
       isJumping := False,
       isSlipping := False,
       jumpSafetyTimer := 0,
       velocity := vec 0 0 0,
       position := vec 0 0.75 0,
       runningCycle := 0,
       rotationY := 0,
       jumpBoost := 0,
       speedBoost := 0,
       isShielded := False,
       magnetRange := 0,
       hasDoubleJumped := False\<rparr>"

text \<open>
  \<open>getScreenPosition()\<close>: without a canvas it returns the origin; with one it calls
  \<open>vector.project\<close> on the object named \<open>camera\<close>, and when there is none that is a
  property read on \<open>undefined\<close>, a TypeError. The coordinates it returns place a display
  element and are not modelled.
\<close>

definition getScreenPosition :: "page \<Rightarrow> unit outcome" where
  "getScreenPosition pg =
     (if \<not> hasCanvas pg then Returned ()
      else if cameraInScene pg then Returned ()
      else Threw ())"

text \<open>
  The page and scene of a \<open>Game\<close>: its constructor appends the renderer's canvas to
  the page, and nothing in the program gives any object the name \<open>camera\<close> (the camera
  is not even added to the scene).
\<close>

definition gamePage :: page where
  "gamePage = \<lparr>hasCanvas = True, cameraInScene = False\<rparr>"

text \<open>
  \<open>applyPowerup(powerupType, value, duration)\<close>: the effect at the call. With a
  duration the source also schedules a timer that puts the field back later; that
  deferred callback is a separate event and is not part of this function. The shield
  case sets the flag and then calls \<open>updateShieldPosition()\<close>, which, the flag being set,
  calls \<open>getScreenPosition()\<close>; an exception there leaves \<open>applyPowerup\<close> with the flag
  set.
\<close>

definition applyPowerup :: "page \<Rightarrow> string \<Rightarrow> real \<Rightarrow> Player \<Rightarrow> Player outcome" where
  "applyPowerup pg powerupType v p =
     (if powerupType = ''jump_boost'' then Returned (p\<lparr>jumpBoost := v\<rparr>)
      else if powerupType = ''speed_boost'' then Returned (p\<lparr>speedBoost := v\<rparr>)
      else if powerupType = ''shield'' then
        (case getScreenPosition pg of
           Returned u \<Rightarrow> Returned (p\<lparr>isShielded := True\<rparr>)
         | Threw u \<Rightarrow> Threw (p\<lparr>isShielded := True\<rparr>))
      else if powerupType = ''double_jump'' then Returned (p\<lparr>doubleJump := True\<rparr>)
      else if powerupType = ''magnet'' then Returned (p\<lparr>magnetRange := v\<rparr>)
      else Returned p)"

definition hasShield :: "Player \<Rightarrow> bool" where
  "hasShield p = isShielded p"

definition removeShield :: "Player \<Rightarrow> Player" where
  "removeShield p = p\<lparr>isShielded := False\<rparr>"

text \<open>
  The calls the game makes on a player, as events, and a sequence of them run in order.
  After a call of \<open>applyPowerup\<close> the sequence goes on from the state the call left,
  whether it returned or not.
\<close>

datatype playerEvent =
  MoveLeft | MoveRight | Jump | Update real | Slip real real | Reset
  | ApplyPowerup page string real | RemoveShield

fun playerStep :: "Player \<Rightarrow> playerEvent \<Rightarrow> Player" where
  "playerStep p MoveLeft = moveLeft p"
| "playerStep p MoveRight = moveRight p"
| "playerStep p Jump = jump p"
| "playerStep p (Update deltaTime) = Player_update deltaTime p"
| "playerStep p (Slip freshness rnd) = slip freshness rnd p"
| "playerStep p Reset = reset p"
| "playerStep p (ApplyPowerup pg t v) = stateAfter (applyPowerup pg t v p)"
| "playerStep p RemoveShield = removeShield p"

definition playerRun :: "Player \<Rightarrow> playerEvent list \<Rightarrow> Player" where
  "playerRun p evs = foldl playerStep p evs"

text \<open>
  Players used as concrete inputs below: one in the air after a jump from the ground, and
  one with the double-jump power-up that jumps, double-jumps, lands, and jumps again.
\<close>

definition airbornePlayer :: Player where
  "airbornePlayer = playerRun (newPlayer ''blue'' ''none'') [Jump, Update (1/10)]"

definition djPlayer :: Player where
  "djPlayer = stateAfter (applyPowerup gamePage ''double_jump'' 1 (newPlayer ''blue'' ''none''))"

definition djFirstFlight :: Player where
  "djFirstFlight = playerRun djPlayer [Jump, Update (1/10)]"

definition djLanded :: Player where
  "djLanded = playerRun djFirstFlight [Jump, Update 2]"

definition djSecondFlight :: Player where
  "djSecondFlight = playerRun djLanded [Jump, Update (1/10)]"

definition purpleGiant :: Player where
  "purpleGiant = setCharacterType ''purple_giant'' (newPlayer ''purple'' ''none'')"

section \<open>Egg\<close>

text \<open>
  The fields of \<open>Egg\<close> the code reads. \<open>age\<close> starts at 0 when the egg is
  constructed (thrown) and only ever grows in \<open>update\<close>; nothing resets it when the egg
  breaks.
\<close>

record Egg = GameObject +
  eggVelocity :: vec3
  isBroken :: bool
  age :: real
  lifespan :: real
  isFixedInPlace :: bool
  worldPosition :: vec3
  hasHitGround :: bool
  markedForRemoval :: bool

text \<open>\<open>new Egg(scene, position, velocity, audioManager)\<close>.\<close>

definition newEgg :: "vec3 \<Rightarrow> vec3 \<Rightarrow> Egg" where
  "newEgg pos vel =
     \<lparr>position = pos, eggVelocity = vel, isBroken = False, age = 0, lifespan = 5,
      isFixedInPlace = False, worldPosition = vec 0 0 0, hasHitGround = False,
      markedForRemoval = False\<rparr>"

definition markForRemoval :: "Egg \<Rightarrow> Egg" where
  "markForRemoval e = e\<lparr>markedForRemoval := True\<rparr>"

text \<open>
  \<open>createBrokenEggEffect\<close>: the egg is pinned where it broke and flagged broken; the
  replacement of the mesh by the puddle is scene state.
\<close>

definition createBrokenEggEffect :: "Egg \<Rightarrow> Egg" where
  "createBrokenEggEffect e =
     e\<lparr>worldPosition := position e, isFixedInPlace := True, isBroken := True\<rparr>"

text \<open>
  \<open>Egg.update(deltaTime, gameSpeed)\<close>. An egg past its lifespan only has its mesh
  taken out of the scene; a broken egg only fades.
\<close>

definition Egg_update :: "real \<Rightarrow> real \<Rightarrow> Egg \<Rightarrow> Egg" where
  "Egg_update deltaTime gameSpeed e =
     (if markedForRemoval e then e
      else
        (let e1 = e\<lparr>age := age e + deltaTime\<rparr>
         in if age e1 > lifespan e1 then e1
            else if \<not> isBroken e1 then
              (let vy = cy (eggVelocity e1) - GRAVITY * deltaTime;
                   pos = \<lparr>cx = cx (position e1) + cx (eggVelocity e1) * deltaTime,
                          cy = cy (position e1) + vy * deltaTime,
                          cz = cz (position e1) + cz (eggVelocity e1) * deltaTime
                                 - gameSpeed * deltaTime\<rparr>;
                   e2 = e1\<lparr>eggVelocity := (eggVelocity e1)\<lparr>cy := vy\<rparr>, position := pos\<rparr>
               in if cy pos \<le> 0.2
                  then (createBrokenEggEffect (e2\<lparr>position := pos\<lparr>cy := 0.25\<rparr>\<rparr>))
                         \<lparr>hasHitGround := True\<rparr>
                  else e2)
            else e1))"

definition isBrokenEgg :: "Egg \<Rightarrow> bool" where
  "isBrokenEgg e = isBroken e"

definition getFreshness :: "Egg \<Rightarrow> real" where
  "getFreshness e = (if \<not> isBroken e then 0 else max 0 (1 - age e / lifespan e))"

text \<open>
  An egg as \<open>FootGoose.throwEgg\<close> launches it from a goose standing at its start
  position with no sideways spread, and the egg after a number of \<open>update\<close> calls of a
  tenth of a second each, as the goose makes them (game speed argument 0).
\<close>

definition thrownEgg :: Egg where
  "thrownEgg = newEgg (vec (8/3) (0.75 + 1.3) 15) (vec 0 5 (-10))"

fun eggAfterFrames :: "nat \<Rightarrow> Egg \<Rightarrow> Egg" where
  "eggAfterFrames 0 e = e"
| "eggAfterFrames (Suc n) e = Egg_update (1/10) 0 (eggAfterFrames n e)"

section \<open>Obstacle\<close>

record Obstacle = GameObject +
  obstacleType :: int

text \<open>
  \<open>new Obstacle(scene, lane)\<close>; the second argument is the value of \<open>Math.random()\<close>
  that picks the type. The obstacle's position is its mesh's position.
\<close>

definition newObstacle :: "real \<Rightarrow> real \<Rightarrow> Obstacle" where
  "newObstacle laneX rnd =
     (let t = \<lfloor>rnd * 3\<rfloor>
      in \<lparr>position = vec laneX (if t = 1 then 1 else 0.5) 100, obstacleType = t\<rparr>)"

definition Obstacle_update :: "real \<Rightarrow> real \<Rightarrow> Obstacle \<Rightarrow> Obstacle" where
  "Obstacle_update deltaTime gameSpeed ob =
     ob\<lparr>position := (position ob)\<lparr>cz := cz (position ob) - gameSpeed * deltaTime\<rparr>\<rparr>"

definition getHeight :: "Obstacle \<Rightarrow> real" where
  "getHeight ob = (if obstacleType ob = 1 then 2 else 1)"

section \<open>Collision test\<close>

text \<open>
  \<open>Game.checkCollision(a, b)\<close>. The arguments are game objects or missing; the player
  argument is the game's own player object, so \<open>a === this.player\<close> is the test for
  \<open>PlayerE\<close> and the player's state is passed alongside. Every constructed game object
  has a mesh, so a missing mesh is a missing object. \<open>isIntersecting\<close> is the answer of
  \<open>aBox.intersectsBox(bBox)\<close>, computed by THREE from the two meshes. An \<open>Obstacle\<close>
  always has \<open>getHeight\<close>, so the bounding-box fallback for the height is never taken.
\<close>

datatype entity = PlayerE | ObstacleE Obstacle | EggE Egg | FootGooseE

definition checkCollision ::
  "Player \<Rightarrow> entity option \<Rightarrow> entity option \<Rightarrow> bool \<Rightarrow> bool" where
  "checkCollision thePlayer a b isIntersecting =
     (case a of None \<Rightarrow> False
      | Some ea \<Rightarrow>
        (case b of None \<Rightarrow> False
         | Some eb \<Rightarrow>
           if (case eb of EggE e \<Rightarrow> getFreshness e = 0 \<and> \<not> isBrokenEgg e | _ \<Rightarrow> False)
           then False
           else if \<not> isIntersecting then False
           else
             (case eb of
                ObstacleE ob \<Rightarrow>
                  if ea = PlayerE \<and> isCurrentlyJumping thePlayer then
                    (let obstacleHeight = getHeight ob;
                         obstacleTopY = cy (position ob) + obstacleHeight / 2;
                         playerFeetY = cy (position thePlayer) - 1
                     in if playerFeetY > obstacleTopY \<and> obstacleHeight < 1.5
                        then False else True)
                  else True
              | _ \<Rightarrow> True)))"

section \<open>Frame inputs\<close>

text \<open>
  What one pass of the game loop takes from outside the program: the time
  \<open>clock.getDelta()\<close> reports, the values \<open>Math.random()\<close> returns at each place it
  is called, and the answers of THREE's bounding-box intersection for the player's mesh
  against an obstacle, an egg, and the goose.
\<close>

record frame =
  deltaTime :: real
  rndEggSpread :: real
  rndEggInterval :: real
  rndJumpInterval :: real
  rndLaneStep :: real
  rndLanePick :: real
  rndLaneInterval :: real
  rndSpawnLane :: real
  rndSpawnJitter :: real
  rndObstacleType :: real
  rndSlipDirection :: real
  boxesObstacle :: "Obstacle \<Rightarrow> bool"
  boxesEgg :: "Egg \<Rightarrow> bool"
  boxesFootGoose :: bool

section \<open>FootGoose\<close>

text \<open>
  The fields of \<open>FootGoose\<close> that carry game state; wing, foot and neck poses are
  rendering state. The names shared with \<open>Player\<close> carry the prefix \<open>goose\<close>.
\<close>

record FootGoose = GameObject +
  gooseLane :: int
  gooseIsJumping :: bool
  gooseVelocity :: vec3
  jumpTimer :: real
  jumpInterval :: real
  laneChangeTimer :: real
  laneChangeInterval :: real
  eggThrowTimer :: real
  eggThrowInterval :: real
  eggs :: "Egg list"
  gooseRunningCycle :: real
  gooseRotationY :: real
  isThrowingEgg :: bool
  throwAnimationTimer :: real

definition newFootGoose :: FootGoose where
  "newFootGoose =
     \<lparr>position = vec ((1 * LANE_WIDTH) / TOTAL_LANES) 0.75 15,
      gooseLane = 1, gooseIsJumping = False, gooseVelocity = vec 0 0 0,
      jumpTimer = 0, jumpInterval = 2, laneChangeTimer = 0, laneChangeInterval = 3,
      eggThrowTimer = 0, eggThrowInterval = 4, eggs = [],
      gooseRunningCycle = 0, gooseRotationY = 0,
      isThrowingEgg = False, throwAnimationTimer = 0\<rparr>"

definition throwEgg :: "frame \<Rightarrow> FootGoose \<Rightarrow> FootGoose" where
  "throwEgg fr fg =
     (let eggPosition = vec (cx (position fg)) (cy (position fg) + 1.3) (cz (position fg));
          eggVel = vec ((rndEggSpread fr - 0.5) * 2) 5 (-10)
      in fg\<lparr>isThrowingEgg := True, throwAnimationTimer := 0,
            eggs := eggs fg @ [newEgg eggPosition eggVel]\<rparr>)"

text \<open>
  \<open>FootGoose.update(deltaTime, player)\<close>, part by part. The eggs are updated with game
  speed 0, and those behind z = -20 are dropped from the list.
\<close>

definition updateEggs :: "real \<Rightarrow> FootGoose \<Rightarrow> FootGoose" where
  "updateEggs dt fg =
     fg\<lparr>eggs := filter (\<lambda>egg. \<not> cz (position egg) < -20) (map (Egg_update dt 0) (eggs fg))\<rparr>"

definition updateThrowAnimation :: "real \<Rightarrow> FootGoose \<Rightarrow> FootGoose" where
  "updateThrowAnimation dt fg =
     (if isThrowingEgg fg then
        (let t = throwAnimationTimer fg + dt
         in if t > 0.5 then fg\<lparr>isThrowingEgg := False, throwAnimationTimer := 0\<rparr>
            else fg\<lparr>throwAnimationTimer := t\<rparr>)
      else fg)"

definition updateEggThrow :: "frame \<Rightarrow> FootGoose \<Rightarrow> FootGoose" where
  "updateEggThrow fr fg =
     (let fg1 = fg\<lparr>eggThrowTimer := eggThrowTimer fg + deltaTime fr\<rparr>
      in if eggThrowTimer fg1 \<ge> eggThrowInterval fg1 \<and> \<not> isThrowingEgg fg1
         then (throwEgg fr fg1)\<lparr>eggThrowTimer := 0,
                                 eggThrowInterval := 3 + rndEggInterval fr * 3\<rparr>
         else fg1)"

definition updateGooseJump :: "frame \<Rightarrow> FootGoose \<Rightarrow> FootGoose" where
  "updateGooseJump fr fg =
     (let dt = deltaTime fr;
          fg1 = fg\<lparr>jumpTimer := jumpTimer fg + dt,
                   laneChangeTimer := laneChangeTimer fg + dt\<rparr>;
          fg2 = (if jumpTimer fg1 \<ge> jumpInterval fg1 \<and> \<not> gooseIsJumping fg1
                 then fg1\<lparr>gooseVelocity := (gooseVelocity fg1)\<lparr>cy := JUMP_FORCE * 0.8\<rparr>,
                          gooseIsJumping := True, jumpTimer := 0,
                          jumpInterval := 1 + rndJumpInterval fr * 2\<rparr>
                 else fg1)
      in if gooseIsJumping fg2 then
           (let vy = cy (gooseVelocity fg2) - GRAVITY * dt;
                py = cy (position fg2) + vy * dt
            in if py \<le> 0.75
               then fg2\<lparr>position := (position fg2)\<lparr>cy := 0.75\<rparr>,
                        gooseVelocity := (gooseVelocity fg2)\<lparr>cy := 0\<rparr>,
                        gooseIsJumping := False\<rparr>
               else fg2\<lparr>position := (position fg2)\<lparr>cy := py\<rparr>,
                        gooseVelocity := (gooseVelocity fg2)\<lparr>cy := vy\<rparr>\<rparr>)
         else if \<not> isThrowingEgg fg2
         then fg2\<lparr>gooseRunningCycle := gooseRunningCycle fg2 + dt * 10\<rparr>
         else fg2)"

text \<open>\<open>Math.round(v)\<close> is \<open>\<lfloor>v + 1/2\<rfloor>\<close>.\<close>

definition updateGooseLane :: "frame \<Rightarrow> Player \<Rightarrow> FootGoose \<Rightarrow> FootGoose" where
  "updateGooseLane fr thePlayer fg =
     (if laneChangeTimer fg \<ge> laneChangeInterval fg then
        (let playerLane = \<lfloor>cx (position thePlayer) / (LANE_WIDTH / TOTAL_LANES) + 1/2\<rfloor>;
             newLane = (if playerLane = gooseLane fg
                        then max (-1) (min 1 (gooseLane fg
                                                + (if rndLaneStep fr > 0.5 then 1 else -1)))
                        else \<lfloor>rndLanePick fr * TOTAL_LANES\<rfloor> - 1)
         in fg\<lparr>gooseLane := newLane, laneChangeTimer := 0,
               laneChangeInterval := 2 + rndLaneInterval fr * 2\<rparr>)
      else fg)"

definition updateGooseMove :: "real \<Rightarrow> Player \<Rightarrow> FootGoose \<Rightarrow> FootGoose" where
  "updateGooseMove dt thePlayer fg =
     (let targetX = (real_of_int (gooseLane fg) * LANE_WIDTH) / TOTAL_LANES;
          nx = cx (position fg) + (targetX - cx (position fg)) * 5 * dt;
          targetRotationY = (nx - targetX) * 0.8;
          targetZ = cz (position thePlayer) + 15;
          nz = cz (position fg) + (targetZ - cz (position fg)) * dt
      in fg\<lparr>position := (position fg)\<lparr>cx := nx, cz := nz\<rparr>,
            gooseRotationY :=
              gooseRotationY fg + (targetRotationY - gooseRotationY fg) * 8 * dt\<rparr>)"

definition FootGoose_update :: "frame \<Rightarrow> Player \<Rightarrow> FootGoose \<Rightarrow> FootGoose" where
  "FootGoose_update fr thePlayer fg =
     updateGooseMove (deltaTime fr) thePlayer
       (updateGooseLane fr thePlayer
         (updateGooseJump fr
           (updateEggThrow fr
             (updateThrowAnimation (deltaTime fr)
               (updateEggs (deltaTime fr) fg)))))"

definition FootGoose_reset :: "FootGoose \<Rightarrow> FootGoose" where
  "FootGoose_reset fg =
     fg\<lparr>gooseLane := 1,
        gooseIsJumping := False,
        gooseVelocity := vec 0 0 0,
        position := vec ((1 * LANE_WIDTH) / TOTAL_LANES) 0.75 15,
        jumpTimer := 0,
        laneChangeTimer := 0,
        eggThrowTimer := 0,
        isThrowingEgg := False,
        eggs := [],
        gooseRunningCycle := 0,
        gooseRotationY := 0\<rparr>"

section \<open>Game\<close>

record Character =
  char_id :: string
  char_color :: string
  unlockScore :: int
  char_unlocked :: bool

definition mkCharacter :: "string \<Rightarrow> string \<Rightarrow> int \<Rightarrow> bool \<Rightarrow> Character" where
  "mkCharacter i c u b = \<lparr>char_id = i, char_color = c, unlockScore = u, char_unlocked = b\<rparr>"

text \<open>
  The state of \<open>Game\<close> that the game logic reads and writes. The scene, camera,
  renderer, environment decorations, audio and DOM elements are display state; of the
  ground mesh only its z coordinate is kept. The constructor builds the player and the
  goose (\<open>initializeGameObjects\<close>), so both exist in every state the methods below can
  run in. The score is \<open>0\<close>, \<open>Math.floor\<close> of a distance, or such a value plus 1000:
  a whole number.
\<close>

record Game =
  isGameRunning :: bool
  score :: int
  distanceTraveled :: real
  gameSpeed :: real
  highScore :: int
  availableCharacters :: "Character list"
  player :: Player
  footGoose :: FootGoose
  groundZ :: real
  obstacles :: "Obstacle list"
  spawnTimer :: real
  spawnInterval :: real
  shop :: Shop
  coinAwardTracker :: "int set"

text \<open>
  \<open>new Game()\<close> with no saved game data; the argument is the shop as restored from
  local storage.
\<close>

definition newGame :: "Shop \<Rightarrow> Game" where
  "newGame sh =
     \<lparr>isGameRunning = False, score = 0, distanceTraveled = 0, gameSpeed = GAME_SPEED,
      highScore = 0,
      availableCharacters =
        [mkCharacter ''default'' ''blue'' 0 True,
         mkCharacter ''speedy'' ''red'' 1000 False,
         mkCharacter ''jumper'' ''green'' 2500 False,
         mkCharacter ''purple_giant'' ''purple'' 5000 False,
         mkCharacter ''golden_runner'' ''orange'' 10000 False],
      player = setCharacterType ''default'' (newPlayer ''blue'' ''none''),
      footGoose = newFootGoose,
      groundZ = 0, obstacles = [], spawnTimer = 0, spawnInterval = 2000,
      shop = sh, coinAwardTracker = {}\<rparr>"

definition awardCoins :: "int \<Rightarrow> Game \<Rightarrow> Game" where
  "awardCoins amount g = g\<lparr>shop := addCoins amount (shop g)\<rparr>"

definition hasAwardedCoinForScore :: "int \<Rightarrow> Game \<Rightarrow> bool" where
  "hasAwardedCoinForScore sc g \<longleftrightarrow> sc \<in> coinAwardTracker g"

definition trackCoinAward :: "int \<Rightarrow> Game \<Rightarrow> Game" where
  "trackCoinAward sc g = g\<lparr>coinAwardTracker := insert sc (coinAwardTracker g)\<rparr>"

definition resetCoinTracker :: "Game \<Rightarrow> Game" where
  "resetCoinTracker g = g\<lparr>coinAwardTracker := {}\<rparr>"

definition checkCharacterUnlocks :: "Game \<Rightarrow> Game" where
  "checkCharacterUnlocks g =
     g\<lparr>availableCharacters :=
         map (\<lambda>character.
                if \<not> char_unlocked character \<and> score g \<ge> unlockScore character
                then character\<lparr>char_unlocked := True\<rparr> else character)
             (availableCharacters g)\<rparr>"

text \<open>\<open>updateScore()\<close>: high score, character unlocks, and the coin award.\<close>

definition updateScore :: "Game \<Rightarrow> Game" where
  "updateScore g =
     (let g1 = (if score g > highScore g then g\<lparr>highScore := score g\<rparr> else g);
          g2 = checkCharacterUnlocks g1
      in if score g2 > 0 \<and> score g2 mod 100 = 0 \<and> \<not> hasAwardedCoinForScore (score g2) g2
         then trackCoinAward (score g2) (awardCoins 10 g2)
         else g2)"

text \<open>
  \<open>applyPurchasedShoes\<close> and \<open>applyPurchasedSkins\<close>: the value of the last item of
  the category that is purchased, has the right type and a non-empty value.
\<close>

definition lastPurchased :: "string \<Rightarrow> ShopItem list \<Rightarrow> string option" where
  "lastPurchased t its =
     foldl (\<lambda>found item.
              case item_value item of
                None \<Rightarrow> found
              | Some v \<Rightarrow>
                  if purchased item \<and> item_type item = Some t \<and> v \<noteq> []
                  then Some v else found)
           None its"

definition applyPurchasedShoes :: "Game \<Rightarrow> Game" where
  "applyPurchasedShoes g =
     (case lastPurchased ''shoes'' (getItemsByCategory ''shoes'' (shop g)) of
        None \<Rightarrow> g
      | Some shoeStyle \<Rightarrow> g\<lparr>player := setShoeStyle shoeStyle (player g)\<rparr>)"

definition applyPurchasedSkins :: "Game \<Rightarrow> Game" where
  "applyPurchasedSkins g =
     (case lastPurchased ''skin'' (getItemsByCategory ''skins'' (shop g)) of
        None \<Rightarrow> g
      | Some skinStyle \<Rightarrow> g\<lparr>player := setSkinStyle skinStyle (player g)\<rparr>)"

text \<open>
  A call on the game's player from a method of the game: an exception in it escapes the
  method too. \<open>andThen\<close> runs the rest of a method only after a call that returned.
\<close>

definition onPlayer :: "(Player \<Rightarrow> Player outcome) \<Rightarrow> Game \<Rightarrow> Game outcome" where
  "onPlayer f g =
     (case f (player g) of
        Returned p \<Rightarrow> Returned (g\<lparr>player := p\<rparr>)
      | Threw p \<Rightarrow> Threw (g\<lparr>player := p\<rparr>))"

definition andThen :: "Game outcome \<Rightarrow> (Game \<Rightarrow> Game outcome) \<Rightarrow> Game outcome" where
  "andThen r f = (case r of Returned g \<Rightarrow> f g | Threw g \<Rightarrow> Threw g)"

text \<open>
  \<open>applyPurchasedPowerups()\<close>. The checks for \<open>double_jump\<close> and \<open>coin_doubler\<close> only
  write to the console. Nothing in it catches an exception of \<open>applyPowerup\<close>.
\<close>

definition applyPurchasedPowerups :: "Game \<Rightarrow> Game outcome" where
  "applyPurchasedPowerups g =
     andThen (if isItemPurchased ''magnet'' (shop g)
              then onPlayer (applyPowerup gamePage ''magnet'' 3) g else Returned g)
       (\<lambda>g1. andThen (if isItemPurchased ''shield'' (shop g1)
                       then onPlayer (applyPowerup gamePage ''shield'' 1) g1 else Returned g1)
          (\<lambda>g2. let g3 = (if isItemPurchased ''head_start'' (shop g2)
                              then g2\<lparr>distanceTraveled := distanceTraveled g2 + 500\<rparr>
                              else g2)
                 in Returned (applyPurchasedSkins (applyPurchasedShoes g3))))"

text \<open>
  The branch of \<open>startGame()\<close> taken when the game is already running: the in-place
  reset after an obstacle collision or a press of the Restart button.
\<close>

definition startGame_running :: "Game \<Rightarrow> Game" where
  "startGame_running g =
     (let g1 = updateScore (g\<lparr>score := 0, distanceTraveled := 0, gameSpeed := GAME_SPEED\<rparr>)
      in g1\<lparr>player := reset (player g1),
            footGoose := FootGoose_reset (footGoose g1),
            obstacles := [],
            spawnTimer := 0,
            spawnInterval := 2000\<rparr>)"

text \<open>The parts of \<open>update()\<close>, in the order of the source.\<close>

definition updateDistance :: "real \<Rightarrow> Game \<Rightarrow> Game" where
  "updateDistance dt g =
     (let d = distanceTraveled g + gameSpeed g * dt;
          g1 = updateScore (g\<lparr>distanceTraveled := d, score := \<lfloor>d\<rfloor>\<rparr>)
      in g1\<lparr>gameSpeed := GAME_SPEED + distanceTraveled g1 / 1000\<rparr>)"

definition updateGround :: "real \<Rightarrow> Game \<Rightarrow> Game" where
  "updateGround dt g =
     (let z = groundZ g - gameSpeed g * dt
      in g\<lparr>groundZ := (if z < -500 then 0 else z)\<rparr>)"

definition spawnObstacle :: "frame \<Rightarrow> Game \<Rightarrow> Game" where
  "spawnObstacle fr g =
     (let laneNo = \<lfloor>rndSpawnLane fr * TOTAL_LANES\<rfloor> - 1;
          lanePosition = (real_of_int laneNo * LANE_WIDTH) / TOTAL_LANES;
          xVariation = (rndSpawnJitter fr - 0.5) * ((LANE_WIDTH / TOTAL_LANES) * 0.5);
          x = lanePosition + xVariation
      in g\<lparr>obstacles := obstacles g @ [newObstacle x (rndObstacleType fr)]\<rparr>)"

definition updateSpawn :: "frame \<Rightarrow> Game \<Rightarrow> Game" where
  "updateSpawn fr g =
     (let g1 = g\<lparr>spawnTimer := spawnTimer g + deltaTime fr * 1000\<rparr>
      in if spawnTimer g1 \<ge> spawnInterval g1
         then (spawnObstacle fr g1)\<lparr>spawnTimer := 0,
                                     spawnInterval := max 500 (spawnInterval g1 - 50)\<rparr>
         else g1)"

text \<open>
  The obstacle loop runs from the last obstacle to the first, so it is given the
  reversed list. It returns the obstacles that remain and whether a collision ended it;
  on a collision the obstacles not yet reached are left as they are.
\<close>

fun obstacleLoop :: "frame \<Rightarrow> real \<Rightarrow> Player \<Rightarrow> Obstacle list \<Rightarrow> Obstacle list \<times> bool" where
  "obstacleLoop fr speed p [] = ([], False)"
| "obstacleLoop fr speed p (ob # rest) =
     (let obstacle = Obstacle_update (deltaTime fr) speed ob
      in if cz (position obstacle) < -20 then obstacleLoop fr speed p rest
         else
           (let distanceToObstacle = \<bar>cz (position obstacle) - cz (position p)\<bar>
            in if \<not> distanceToObstacle > 5 \<and> distanceToObstacle < 3
                  \<and> \<not> isCurrentlySlipping p
                  \<and> checkCollision p (Some PlayerE) (Some (ObstacleE obstacle))
                       (boxesObstacle fr obstacle)
               then (obstacle # rest, True)
               else (case obstacleLoop fr speed p rest of
                       (rest', hit) \<Rightarrow> (obstacle # rest', hit))))"

text \<open>
  Inside \<open>update()\<close> the game is running, so the call \<open>this.startGame()\<close> on a
  collision takes the already-running branch.
\<close>

definition updateObstacles :: "frame \<Rightarrow> Game \<Rightarrow> Game" where
  "updateObstacles fr g =
     (case obstacleLoop fr (gameSpeed g) (player g) (rev (obstacles g)) of
        (obs, hit) \<Rightarrow>
          if hit then startGame_running (g\<lparr>obstacles := rev obs\<rparr>)
          else g\<lparr>obstacles := rev obs\<rparr>)"

text \<open>
  The body of the loop of \<open>checkEggCollisions\<close> for one egg, and the loop, again from
  the last egg to the first.
\<close>

definition eggCollision :: "frame \<Rightarrow> Egg \<Rightarrow> Player \<Rightarrow> Egg \<times> Player" where
  "eggCollision fr egg p =
     (if hasHitGround egg \<or> markedForRemoval egg then (egg, p)
      else if checkCollision p (Some (EggE egg)) (Some PlayerE) (boxesEgg fr egg) then
        (if hasShield p then (markForRemoval egg, removeShield p)
         else (markForRemoval egg, slip 0.5 (rndSlipDirection fr) p))
      else (egg, p))"

fun eggCollisionLoop :: "frame \<Rightarrow> Egg list \<Rightarrow> Player \<Rightarrow> Egg list \<times> Player" where
  "eggCollisionLoop fr [] p = ([], p)"
| "eggCollisionLoop fr (egg # rest) p =
     (case eggCollision fr egg p of
        (egg', p') \<Rightarrow>
          (case eggCollisionLoop fr rest p' of
             (rest', p'') \<Rightarrow> (egg' # rest', p'')))"

definition checkEggCollisions :: "frame \<Rightarrow> Game \<Rightarrow> Game" where
  "checkEggCollisions fr g =
     (case eggCollisionLoop fr (rev (eggs (footGoose g))) (player g) of
        (es, p) \<Rightarrow> g\<lparr>footGoose := (footGoose g)\<lparr>eggs := rev es\<rparr>, player := p\<rparr>)"

text \<open>The capture of the goose at the end of \<open>update()\<close>.\<close>

definition checkCapture :: "frame \<Rightarrow> Game \<Rightarrow> Game" where
  "checkCapture fr g =
     (if checkCollision (player g) (Some PlayerE) (Some FootGooseE) (boxesFootGoose fr)
      then (let g1 = updateScore (g\<lparr>score := score g + 1000\<rparr>)
            in g1\<lparr>footGoose := FootGoose_reset (footGoose g1)\<rparr>)
      else g)"

text \<open>\<open>update()\<close>: one pass of the game loop.\<close>

definition update :: "frame \<Rightarrow> Game \<Rightarrow> Game" where
  "update fr g =
     (if \<not> isGameRunning g then g
      else
        (let g1 = updateDistance (deltaTime fr) g;
             g2 = g1\<lparr>player := Player_update (deltaTime fr) (player g1)\<rparr>;
             g3 = g2\<lparr>footGoose := FootGoose_update fr (player g2) (footGoose g2)\<rparr>;
             g4 = updateGround (deltaTime fr) g3;
             g5 = updateSpawn fr g4;
             g6 = updateObstacles fr g5;
             g7 = checkEggCollisions fr g6
         in checkCapture fr g7))"

text \<open>
  \<open>startGame()\<close>. In the branch for a game that is not running yet, the call
  \<open>this.update()\<close> runs one pass of the loop on the clock just created; the frame
  argument holds that pass's inputs. An exception of \<open>applyPurchasedPowerups()\<close> ends
  \<open>startGame()\<close> there: the statements after it are not run.
\<close>

definition startGame :: "frame \<Rightarrow> Game \<Rightarrow> Game outcome" where
  "startGame fr g =
     (if \<not> isGameRunning g then
        (let g1 = updateScore (g\<lparr>isGameRunning := True, score := 0, distanceTraveled := 0,
                                 gameSpeed := GAME_SPEED\<rparr>);
             g2 = g1\<lparr>player := reset (player g1),
                      footGoose := FootGoose_reset (footGoose g1)\<rparr>
         in andThen (applyPurchasedPowerups g2)
              (\<lambda>g3. let g4 = g3\<lparr>obstacles := [], spawnTimer := 0, spawnInterval := 2000\<rparr>;
                         g5 = update fr g4
                     in Returned (resetCoinTracker g5)))
      else Returned (startGame_running g))"

text \<open>
  Names for parts of one pass of \<open>update()\<close> on a running game: the state when the
  obstacle loop starts, whether that loop ends in a collision, and the state when the
  capture check starts. \<open>scoring\<close> collects the fields that scoring reads and writes.
\<close>

definition beforeObstacles :: "frame \<Rightarrow> Game \<Rightarrow> Game" where
  "beforeObstacles fr g =
     (let g1 = updateDistance (deltaTime fr) g;
          g2 = g1\<lparr>player := Player_update (deltaTime fr) (player g1)\<rparr>;
          g3 = g2\<lparr>footGoose := FootGoose_update fr (player g2) (footGoose g2)\<rparr>;
          g4 = updateGround (deltaTime fr) g3
      in updateSpawn fr g4)"

definition obstacleHit :: "frame \<Rightarrow> Game \<Rightarrow> bool" where
  "obstacleHit fr g =
     snd (obstacleLoop fr (gameSpeed (beforeObstacles fr g)) (player (beforeObstacles fr g))
            (rev (obstacles (beforeObstacles fr g))))"

definition beforeCapture :: "frame \<Rightarrow> Game \<Rightarrow> Game" where
  "beforeCapture fr g = checkEggCollisions fr (updateObstacles fr (beforeObstacles fr g))"

text \<open>
  In the not-yet-running branch of \<open>startGame()\<close>: the state on which
  \<open>applyPurchasedPowerups()\<close> is called, and the state on which \<open>update()\<close> is called
  once \<open>applyPurchasedPowerups()\<close> has returned.
\<close>

definition beforePowerups :: "Game \<Rightarrow> Game" where
  "beforePowerups g =
     (let g1 = updateScore (g\<lparr>isGameRunning := True, score := 0, distanceTraveled := 0,
                              gameSpeed := GAME_SPEED\<rparr>)
      in g1\<lparr>player := reset (player g1),
            footGoose := FootGoose_reset (footGoose g1)\<rparr>)"

definition startGame_prepared :: "Game \<Rightarrow> Game" where
  "startGame_prepared g =
     (stateAfter (applyPurchasedPowerups (beforePowerups g)))
       \<lparr>obstacles := [], spawnTimer := 0, spawnInterval := 2000\<rparr>"

definition scoring ::
  "Game \<Rightarrow> bool \<times> int \<times> real \<times> real \<times> int \<times> Character list \<times> Shop \<times> int set" where
  "scoring g =
     (isGameRunning g, score g, distanceTraveled g, gameSpeed g, highScore g,
      availableCharacters g, shop g, coinAwardTracker g)"

text \<open>
  A frame in which nothing touches the player and every random draw is 0, and the games
  used as concrete inputs below. \<open>startedGame\<close> is started from the start screen;
  \<open>firstRun\<close> takes it to score 100 in one long frame; \<open>secondRun\<close> is the run after
  a restart, taken to the same score. \<open>captureFrame\<close> is a frame in which the player's
  box meets the goose's. \<open>shieldedRun\<close> is the game after \<open>startGame()\<close> from the start
  screen with the shield bought beforehand; \<open>headStartShop\<close> and \<open>shieldShop\<close> are the
  shops after buying the head start and the shield, and \<open>headStartRun\<close> is the game
  started from the start screen with the head start bought.
\<close>

definition quietFrame :: "real \<Rightarrow> frame" where
  "quietFrame dt =
     \<lparr>deltaTime = dt, rndEggSpread = 0, rndEggInterval = 0, rndJumpInterval = 0,
      rndLaneStep = 0, rndLanePick = 0, rndLaneInterval = 0, rndSpawnLane = 0,
      rndSpawnJitter = 0, rndObstacleType = 0, rndSlipDirection = 0,
      boxesObstacle = (\<lambda>ob. False), boxesEgg = (\<lambda>egg. False), boxesFootGoose = False\<rparr>"

definition startedGame :: Game where
  "startedGame = stateAfter (startGame (quietFrame 0) (newGame (newShop 0)))"

definition firstRun :: Game where
  "firstRun = update (quietFrame 5) startedGame"

definition secondRun :: Game where
  "secondRun = update (quietFrame 5) (stateAfter (startGame (quietFrame 0) firstRun))"

definition captureFrame :: frame where
  "captureFrame = (quietFrame (1/10))\<lparr>boxesFootGoose := True\<rparr>"

definition shieldShop :: Shop where
  "shieldShop = snd (purchaseItem ''shield'' (newShop 200))"

definition headStartShop :: Shop where
  "headStartShop = snd (purchaseItem ''head_start'' (newShop 200))"

definition headStartRun :: Game where
  "headStartRun = stateAfter (startGame (quietFrame 0) (newGame headStartShop))"

definition shieldedRun :: Game where
  "shieldedRun = stateAfter (startGame (quietFrame 0) (newGame shieldShop))"

section \<open>Shop: purchasing\<close>

lemma find_markPurchased_same:
  "find (\<lambda>i. item_id i = k) xs = Some it \<Longrightarrow>
   find (\<lambda>i. item_id i = k) (markPurchased k xs) = Some (it\<lparr>purchased := True\<rparr>)"
  by (induction xs) (auto split: if_splits)

lemma find_markPurchased_other:
  "j \<noteq> k \<Longrightarrow>
   find (\<lambda>i. item_id i = j) (markPurchased k xs) = find (\<lambda>i. item_id i = j) xs"
  by (induction xs) auto

text \<open>
  C1. For every shop state and item id, \<open>purchaseItem\<close> returns false and leaves the
  whole shop (coin balance and every purchased flag) as it was when the id is unknown,
  or the item is already purchased, locked, or costs more than the balance. When the
  item exists, is unlocked and unpurchased and the balance covers the price, it returns
  true, the balance drops by exactly the price, the item's purchased flag is set, and
  the lookup of every other id is unchanged.
\<close>

theorem purchaseItem_spec:
  "(findItem k s = None \<longrightarrow> purchaseItem k s = (False, s)) \<and>
   (\<forall>it. findItem k s = Some it \<longrightarrow>
      (purchased it \<or> \<not> unlocked it \<or> coins s < price it \<longrightarrow>
         purchaseItem k s = (False, s)) \<and>
      (unlocked it \<and> \<not> purchased it \<and> coins s \<ge> price it \<longrightarrow>
         fst (purchaseItem k s) \<and>
         coins (snd (purchaseItem k s)) = coins s - price it \<and>
         findItem k (snd (purchaseItem k s)) = Some (it\<lparr>purchased := True\<rparr>) \<and>
         isItemPurchased k (snd (purchaseItem k s)) \<and>
         (\<forall>j. j \<noteq> k \<longrightarrow> findItem j (snd (purchaseItem k s)) = findItem j s)))"
  by (auto simp: purchaseItem_def findItem_def isItemPurchased_def
      find_markPurchased_same find_markPurchased_other)

lemma findItem_shield:
  "findItem ''shield'' (newShop c) = Some (mkItem ''shield'' 200 ''powerup'' None None)"
  by (simp add: findItem_def newShop_def initializeItems_def mkItem_def)

lemma findItem_crown:
  "findItem ''crown'' (newShop c) = Some (mkItem ''crown'' 500 ''cosmetic'' None None)"
  by (simp add: findItem_def newShop_def initializeItems_def mkItem_def)

lemma findItem_double_jump: "findItem ''double_jump'' (newShop c) = None"
  by (simp add: findItem_def newShop_def initializeItems_def mkItem_def)

theorem purchaseItem_spec_witness:
  "findItem ''shield'' (newShop 250) = Some (mkItem ''shield'' 200 ''powerup'' None None) \<and>
   fst (purchaseItem ''shield'' (newShop 250)) \<and>
   coins (snd (purchaseItem ''shield'' (newShop 250))) = 50 \<and>
   isItemPurchased ''shield'' (snd (purchaseItem ''shield'' (newShop 250))) \<and>
   purchaseItem ''crown'' (newShop 250) = (False, newShop 250) \<and>
   purchaseItem ''double_jump'' (newShop 250) = (False, newShop 250)"
proof -
  have c: "coins (newShop 250) = 250"
    by (simp add: newShop_def)
  show ?thesis
    using purchaseItem_spec [of "''shield''" "newShop 250"]
      purchaseItem_spec [of "''crown''" "newShop 250"]
      purchaseItem_spec [of "''double_jump''" "newShop 250"]
    by (simp add: findItem_shield findItem_crown findItem_double_jump mkItem_def c)
qed

section \<open>Player: power-ups\<close>

lemma stateAfter_simps:
  "stateAfter (Returned a) = a" "stateAfter (Threw a) = a"
  "returned (Returned a)" "\<not> returned (Threw a)"
  by (simp_all add: stateAfter_def returned_def)

text \<open>The state \<open>applyPowerup\<close> leaves, whether it returns or not.\<close>

lemma stateAfter_applyPowerup:
  "stateAfter (applyPowerup pg powerupType v p) =
     (if powerupType = ''jump_boost'' then p\<lparr>jumpBoost := v\<rparr>
      else if powerupType = ''speed_boost'' then p\<lparr>speedBoost := v\<rparr>
      else if powerupType = ''shield'' then p\<lparr>isShielded := True\<rparr>
      else if powerupType = ''double_jump'' then p\<lparr>doubleJump := True\<rparr>
      else if powerupType = ''magnet'' then p\<lparr>magnetRange := v\<rparr>
      else p)"
  by (simp add: applyPowerup_def stateAfter_simps split: outcome.split)

text \<open>\<open>applyPowerup\<close> returns except for a shield on a page like the game's.\<close>

lemma returned_applyPowerup:
  "returned (applyPowerup pg powerupType v p) \<longleftrightarrow>
     \<not> (powerupType = ''shield'' \<and> hasCanvas pg \<and> \<not> cameraInScene pg)"
  by (simp add: applyPowerup_def getScreenPosition_def stateAfter_simps)

section \<open>Player: evaluation of the concrete players\<close>

lemmas player_eval_defs =
  jump_def Player_update_def updateJump_def updateSafetyTimer_def updateSlip_def
  updateLane_def stateAfter_applyPowerup newPlayer_def vec_def mkStats_def
  JUMP_FORCE_def GRAVITY_def LANE_WIDTH_def TOTAL_LANES_def playerRun_def

lemma airbornePlayer_eval:
  "airbornePlayer = (newPlayer ''blue'' ''none'')
     \<lparr>position := vec 0 (11/5) 0, velocity := vec 0 12 0, isJumping := True,
       runningCycle := 0\<rparr>"
  by (simp add: airbornePlayer_def player_eval_defs Let_def)

lemma djFirstFlight_eval:
  "djFirstFlight = (newPlayer ''blue'' ''none'')
     \<lparr>position := vec 0 (11/5) 0, velocity := vec 0 12 0, isJumping := True,
       doubleJump := True\<rparr>"
  by (simp add: djFirstFlight_def djPlayer_def player_eval_defs Let_def)

lemma djLanded_eval:
  "djLanded = (newPlayer ''blue'' ''none'')
     \<lparr>jumpSafetyTimer := - 19 / 10, doubleJump := True, hasDoubleJumped := True\<rparr>"
  by (simp add: djLanded_def djFirstFlight_eval player_eval_defs Let_def)

lemma djSecondFlight_eval:
  "djSecondFlight = (newPlayer ''blue'' ''none'')
     \<lparr>position := vec 0 (11/5) 0, velocity := vec 0 12 0, isJumping := True,
       jumpSafetyTimer := - 19 / 10, doubleJump := True, hasDoubleJumped := True\<rparr>"
  by (simp add: djSecondFlight_def djLanded_eval player_eval_defs Let_def)

section \<open>Player: jumping\<close>

lemma hasDoubleJumped_jump: "hasDoubleJumped p \<Longrightarrow> hasDoubleJumped (jump p)"
  by (simp add: jump_def Let_def)

lemma hasDoubleJumped_updateJump: "hasDoubleJumped (updateJump dt p) = hasDoubleJumped p"
  by (simp add: updateJump_def Let_def)

lemma hasDoubleJumped_updateSafetyTimer:
  "hasDoubleJumped (updateSafetyTimer dt p) = hasDoubleJumped p"
  by (simp add: updateSafetyTimer_def)

lemma hasDoubleJumped_updateSlip: "hasDoubleJumped (updateSlip dt p) = hasDoubleJumped p"
  by (simp add: updateSlip_def Let_def)

lemma hasDoubleJumped_updateLane: "hasDoubleJumped (updateLane dt p) = hasDoubleJumped p"
  by (simp add: updateLane_def Let_def)

lemma hasDoubleJumped_Player_update:
  "hasDoubleJumped (Player_update dt p) = hasDoubleJumped p"
  by (simp add: Player_update_def Let_def hasDoubleJumped_updateSlip
      hasDoubleJumped_updateLane hasDoubleJumped_updateSafetyTimer hasDoubleJumped_updateJump)

lemma hasDoubleJumped_playerStep:
  "hasDoubleJumped p \<Longrightarrow> e \<noteq> Reset \<Longrightarrow> hasDoubleJumped (playerStep p e)"
  by (cases e)
     (simp_all add: hasDoubleJumped_jump hasDoubleJumped_Player_update moveLeft_def
        moveRight_def slip_def Let_def stateAfter_applyPowerup removeShield_def)

lemma hasDoubleJumped_playerRun:
  "hasDoubleJumped p \<Longrightarrow> Reset \<notin> set evs \<Longrightarrow> hasDoubleJumped (playerRun p evs)"
  unfolding playerRun_def
proof (induction evs arbitrary: p)
  case Nil
  then show ?case by simp
next
  case (Cons e evs)
  from Cons.prems have "e \<noteq> Reset" and rest: "Reset \<notin> set evs"
    by auto
  with Cons.prems have "hasDoubleJumped (playerStep p e)"
    by (simp add: hasDoubleJumped_playerStep)
  then show ?case
    using Cons.IH rest by simp
qed

text \<open>
  C3, as amended. An airborne \<open>jump()\<close> without the double-jump power-up changes
  nothing. With the power-up, an airborne jump succeeds while \<open>hasDoubleJumped\<close> is
  false and sets it; once set, an airborne jump changes nothing, and the flag stays set
  through every later call except \<open>reset()\<close>, landing included. Whenever a jump
  succeeds, the vertical velocity becomes \<open>JUMP_FORCE * (1 + jumpBoost)\<close> and
  \<open>isJumping\<close> is set.
\<close>

theorem jump_gating:
  "(cy (position p) > 1 \<and> \<not> doubleJump p \<longrightarrow> jump p = p) \<and>
   (cy (position p) > 1 \<and> doubleJump p \<and> \<not> hasDoubleJumped p \<longrightarrow>
      jump p = p\<lparr>hasDoubleJumped := True,
                 velocity := (velocity p)\<lparr>cy := JUMP_FORCE * (1 + jumpBoost p)\<rparr>,
                 isJumping := True\<rparr>) \<and>
   (cy (position p) > 1 \<and> hasDoubleJumped p \<longrightarrow> jump p = p) \<and>
   (cy (position p) \<le> 1 \<longrightarrow>
      jump p = p\<lparr>velocity := (velocity p)\<lparr>cy := JUMP_FORCE * (1 + jumpBoost p)\<rparr>,
                 isJumping := True\<rparr>) \<and>
   (cy (position p) \<le> 1 \<or> (doubleJump p \<and> \<not> hasDoubleJumped p) \<longrightarrow>
      cy (velocity (jump p)) = JUMP_FORCE * (1 + jumpBoost p) \<and> isJumping (jump p)) \<and>
   (hasDoubleJumped p \<and> Reset \<notin> set evs \<longrightarrow> hasDoubleJumped (playerRun p evs)) \<and>
   \<not> hasDoubleJumped (reset p)"
proof -
  have a: "cy (position p) > 1 \<and> \<not> doubleJump p \<longrightarrow> jump p = p"
    by (simp add: jump_def)
  have b: "cy (position p) > 1 \<and> doubleJump p \<and> \<not> hasDoubleJumped p \<longrightarrow>
      jump p = p\<lparr>hasDoubleJumped := True,
                 velocity := (velocity p)\<lparr>cy := JUMP_FORCE * (1 + jumpBoost p)\<rparr>,
                 isJumping := True\<rparr>"
    by (simp add: jump_def Let_def)
  have c: "cy (position p) > 1 \<and> hasDoubleJumped p \<longrightarrow> jump p = p"
    by (simp add: jump_def)
  have d: "cy (position p) \<le> 1 \<longrightarrow>
      jump p = p\<lparr>velocity := (velocity p)\<lparr>cy := JUMP_FORCE * (1 + jumpBoost p)\<rparr>,
                 isJumping := True\<rparr>"
    by (simp add: jump_def Let_def)
  have e: "cy (position p) \<le> 1 \<or> (doubleJump p \<and> \<not> hasDoubleJumped p) \<longrightarrow>
      cy (velocity (jump p)) = JUMP_FORCE * (1 + jumpBoost p) \<and> isJumping (jump p)"
    by (simp add: jump_def Let_def)
  have f: "hasDoubleJumped p \<and> Reset \<notin> set evs \<longrightarrow> hasDoubleJumped (playerRun p evs)"
    by (simp add: hasDoubleJumped_playerRun)
  have g: "\<not> hasDoubleJumped (reset p)"
    by (simp add: reset_def)
  from a b c d e f g show ?thesis by blast
qed

theorem jump_gating_witness:
  "cy (position airbornePlayer) > 1 \<and> \<not> doubleJump airbornePlayer \<and>
   jump airbornePlayer = airbornePlayer \<and>
   cy (position djFirstFlight) > 1 \<and> doubleJump djFirstFlight \<and>
   \<not> hasDoubleJumped djFirstFlight \<and>
   cy (velocity (jump djFirstFlight)) = 15 \<and> hasDoubleJumped (jump djFirstFlight) \<and>
   cy (position djSecondFlight) > 1 \<and> hasDoubleJumped djSecondFlight \<and>
   jump djSecondFlight = djSecondFlight \<and>
   cy (position djPlayer) \<le> 1 \<and> cy (velocity (jump djPlayer)) = 15 \<and>
   hasDoubleJumped (playerRun djSecondFlight [Update 2, Jump, Update (1/10), Jump])"
proof -
  have j: "jumpBoost djPlayer = 0" "cy (position djPlayer) = 1" "jumpBoost djFirstFlight = 0"
    by (simp_all add: djPlayer_def djFirstFlight_eval stateAfter_applyPowerup newPlayer_def
        vec_def)
  have r: "Reset \<notin> set [Update 2, Jump, Update (1/10), Jump]"
    by simp
  show ?thesis
    using jump_gating [of airbornePlayer "[]"] jump_gating [of djFirstFlight "[]"]
      jump_gating [of djSecondFlight "[Update 2, Jump, Update (1/10), Jump]"]
      jump_gating [of djPlayer "[]"] r
    by (simp add: airbornePlayer_eval djFirstFlight_eval djSecondFlight_eval j
        newPlayer_def vec_def JUMP_FORCE_def)
qed

text \<open>
  The claim as stated fails: \<open>djLanded\<close> is back on the ground after a double jump, and
  in the airborne period that follows the power-up is still active, yet the airborne
  jump does nothing.
\<close>

theorem jump_once_per_airborne_period_counterexample:
  "doubleJump djFirstFlight \<and> cy (position djFirstFlight) > 1 \<and>
   jump djFirstFlight \<noteq> djFirstFlight \<and>
   \<not> isJumping djLanded \<and> cy (position djLanded) = 1 \<and>
   doubleJump djSecondFlight \<and> isJumping djSecondFlight \<and>
   cy (position djSecondFlight) > 1 \<and>
   jump djSecondFlight = djSecondFlight"
proof -
  have "hasDoubleJumped (jump djFirstFlight)" "\<not> hasDoubleJumped djFirstFlight"
    by (simp_all add: djFirstFlight_eval jump_def newPlayer_def vec_def)
  then have "jump djFirstFlight \<noteq> djFirstFlight"
    by metis
  then show ?thesis
    by (simp add: djFirstFlight_eval djLanded_eval djSecondFlight_eval jump_def
        newPlayer_def vec_def)
qed

section \<open>Player: lanes\<close>

lemma lane_updateJump: "lane (updateJump dt p) = lane p"
  by (simp add: updateJump_def Let_def)

lemma lane_updateSafetyTimer: "lane (updateSafetyTimer dt p) = lane p"
  by (simp add: updateSafetyTimer_def)

lemma lane_updateSlip: "lane (updateSlip dt p) = lane p"
  by (simp add: updateSlip_def Let_def)

lemma lane_updateLane: "lane (updateLane dt p) = lane p"
  by (simp add: updateLane_def Let_def)

lemma lane_Player_update: "lane (Player_update dt p) = lane p"
  by (simp add: Player_update_def Let_def lane_updateSlip lane_updateLane
      lane_updateSafetyTimer lane_updateJump)

lemma lane_jump: "lane (jump p) = lane p"
  by (simp add: jump_def Let_def)

lemma lane_slip: "lane (slip f r p) = lane p"
  by (simp add: slip_def Let_def)

lemma lane_applyPowerup: "lane (stateAfter (applyPowerup pg t v p)) = lane p"
  by (simp add: stateAfter_applyPowerup)

lemma lane_playerStep:
  "lane p \<in> {-1, 0, 1} \<Longrightarrow> lane (playerStep p e) \<in> {-1, 0, 1}"
proof (cases e)
  case MoveLeft
  assume "lane p \<in> {-1, 0, 1}"
  with MoveLeft show ?thesis by (auto simp: moveLeft_def)
next
  case MoveRight
  assume "lane p \<in> {-1, 0, 1}"
  with MoveRight show ?thesis by (auto simp: moveRight_def)
next
  case Reset
  then show ?thesis by (simp add: reset_def)
qed (simp_all add: lane_jump lane_Player_update lane_slip lane_applyPowerup removeShield_def)

lemma lane_playerRun:
  "lane p \<in> {-1, 0, 1} \<Longrightarrow> lane (playerRun p evs) \<in> {-1, 0, 1}"
  unfolding playerRun_def
proof (induction evs arbitrary: p)
  case Nil
  then show ?case by simp
next
  case (Cons e evs)
  have "lane (playerStep p e) \<in> {-1, 0, 1}"
    using Cons.prems by (rule lane_playerStep)
  then show ?case
    using Cons.IH by simp
qed

text \<open>
  C7. From a lane in \<open>{-1, 0, 1}\<close>, and so from a newly constructed player, every
  sequence of calls on the player (\<open>moveLeft\<close> and \<open>moveRight\<close>, and also jumps,
  updates, slips, power-ups and resets) leaves the lane in \<open>{-1, 0, 1}\<close>.
  \<open>moveLeft\<close> at lane -1 and \<open>moveRight\<close> at lane 1 change nothing, and neither call
  changes anything while the player is slipping.
\<close>

theorem lane_bounds:
  "(lane p \<in> {-1, 0, 1} \<longrightarrow> lane (playerRun p evs) \<in> {-1, 0, 1}) \<and>
   lane (playerRun (newPlayer c h) evs) \<in> {-1, 0, 1} \<and>
   (lane p = -1 \<longrightarrow> moveLeft p = p) \<and>
   (lane p = 1 \<longrightarrow> moveRight p = p) \<and>
   (isSlipping p \<longrightarrow> moveLeft p = p \<and> moveRight p = p)"
proof -
  have a: "lane p \<in> {-1, 0, 1} \<longrightarrow> lane (playerRun p evs) \<in> {-1, 0, 1}"
    using lane_playerRun by blast
  have "lane (newPlayer c h) \<in> {-1, 0, 1}"
    by (simp add: newPlayer_def)
  then have b: "lane (playerRun (newPlayer c h) evs) \<in> {-1, 0, 1}"
    by (rule lane_playerRun)
  have c: "lane p = -1 \<longrightarrow> moveLeft p = p"
    by (simp add: moveLeft_def)
  have d: "lane p = 1 \<longrightarrow> moveRight p = p"
    by (simp add: moveRight_def)
  have e: "isSlipping p \<longrightarrow> moveLeft p = p \<and> moveRight p = p"
    by (simp add: moveLeft_def moveRight_def)
  from a b c d e show ?thesis by blast
qed

theorem lane_bounds_witness:
  "lane (moveLeft (newPlayer ''blue'' ''none'')) = -1 \<and>
   moveLeft (moveLeft (newPlayer ''blue'' ''none'')) = moveLeft (newPlayer ''blue'' ''none'') \<and>
   lane (moveRight (newPlayer ''blue'' ''none'')) = 1 \<and>
   moveRight (moveRight (newPlayer ''blue'' ''none'')) = moveRight (newPlayer ''blue'' ''none'') \<and>
   isSlipping (slip (1/2) (7/10) (newPlayer ''blue'' ''none'')) \<and>
   moveLeft (slip (1/2) (7/10) (newPlayer ''blue'' ''none'')) =
     slip (1/2) (7/10) (newPlayer ''blue'' ''none'') \<and>
   lane (playerRun (moveLeft (newPlayer ''blue'' ''none''))
           [MoveLeft, MoveRight, MoveRight, MoveRight, Jump, MoveLeft]) \<in> {-1, 0, 1}"
proof -
  have l: "lane (moveLeft (newPlayer ''blue'' ''none'')) = -1"
    and r: "lane (moveRight (newPlayer ''blue'' ''none'')) = 1"
    and s: "isSlipping (slip (1/2) (7/10) (newPlayer ''blue'' ''none''))"
    by (simp_all add: moveLeft_def moveRight_def slip_def newPlayer_def Let_def)
  show ?thesis
    using lane_bounds [of "moveLeft (newPlayer ''blue'' ''none'')"
        "[MoveLeft, MoveRight, MoveRight, MoveRight, Jump, MoveLeft]"]
      lane_bounds [of "moveRight (newPlayer ''blue'' ''none'')" "[]"]
      lane_bounds [of "slip (1/2) (7/10) (newPlayer ''blue'' ''none'')" "[]"]
      l r s
    by simp
qed

section \<open>Player: reset\<close>




section \<open>Player: slipping\<close>

lemma slip_fresh:
  "\<not> isSlipping p \<Longrightarrow>
   slip f rnd p =
     p\<lparr>isSlipping := True, slipTimer := 0,
       slipDuration := (1 + f * 2) * (1 - slipResistance (stats p)),
       slipDirection := (if rnd > 0.5 then 1 else -1),
       slipRotation := 0,
       slipVelocity := (3 + f * 5) * (1 - slipResistance (stats p))\<rparr>"
  by (simp add: slip_def Let_def)

lemma isSlipping_updateJump: "isSlipping (updateJump dt p) = isSlipping p"
  by (simp add: updateJump_def Let_def)

lemma isSlipping_updateSafetyTimer: "isSlipping (updateSafetyTimer dt p) = isSlipping p"
  by (simp add: updateSafetyTimer_def)

lemma cx_updateJump: "cx (position (updateJump dt p)) = cx (position p)"
  by (simp add: updateJump_def Let_def)

lemma position_updateSafetyTimer: "position (updateSafetyTimer dt p) = position p"
  by (simp add: updateSafetyTimer_def)

lemma effectiveSlipVelocity_updateJump:
  "effectiveSlipVelocity (updateJump dt p) = effectiveSlipVelocity p"
  by (simp add: updateJump_def Let_def effectiveSlipVelocity_def)

lemma effectiveSlipVelocity_updateSafetyTimer:
  "effectiveSlipVelocity (updateSafetyTimer dt p) = effectiveSlipVelocity p"
  by (simp add: updateSafetyTimer_def effectiveSlipVelocity_def)

lemma slipDirection_updateJump: "slipDirection (updateJump dt p) = slipDirection p"
  by (simp add: updateJump_def Let_def)

lemma slipDirection_updateSafetyTimer:
  "slipDirection (updateSafetyTimer dt p) = slipDirection p"
  by (simp add: updateSafetyTimer_def)

lemma cx_updateSlip:
  "cx (position (updateSlip dt p)) =
     (let nx = cx (position p) + effectiveSlipVelocity p * dt * slipDirection p
      in if nx > laneLimit then laneLimit
         else if nx < - laneLimit then - laneLimit else nx)"
  by (simp add: updateSlip_def Let_def)

lemma cx_Player_update_slipping:
  "isSlipping p \<Longrightarrow>
   cx (position (Player_update dt p)) =
     (let nx = cx (position p) + effectiveSlipVelocity p * dt * slipDirection p
      in if nx > laneLimit then laneLimit
         else if nx < - laneLimit then - laneLimit else nx)"
  by (simp add: Player_update_def Let_def isSlipping_updateJump isSlipping_updateSafetyTimer
      cx_updateSlip cx_updateJump position_updateSafetyTimer effectiveSlipVelocity_updateJump
      effectiveSlipVelocity_updateSafetyTimer slipDirection_updateJump
      slipDirection_updateSafetyTimer)

text \<open>
  C10. For a player that is not already slipping, \<open>slip(freshness)\<close> sets
  \<open>slipVelocity\<close> to \<open>(3 + freshness * 5) * (1 - slipResistance)\<close>, and the next
  \<open>update\<close> moves the player with that value times \<open>(1 - slipResistance)\<close> once more:
  the speed of the first frame's slide is \<open>(3 + freshness * 5) * (1 - slipResistance)\<^sup>2\<close>,
  and the new x is the old x plus that speed times the frame time times the slip
  direction, clamped to the lane limit.
\<close>

theorem slip_resistance_twice:
  "\<not> isSlipping p \<longrightarrow>
     slipVelocity (slip f rnd p) = (3 + f * 5) * (1 - slipResistance (stats p)) \<and>
     effectiveSlipVelocity (slip f rnd p) = (3 + f * 5) * (1 - slipResistance (stats p))^2 \<and>
     cx (position (Player_update dt (slip f rnd p))) =
       (let nx = cx (position p) +
                 ((3 + f * 5) * (1 - slipResistance (stats p))^2) * dt
                   * slipDirection (slip f rnd p)
        in if nx > laneLimit then laneLimit
           else if nx < - laneLimit then - laneLimit else nx)"
proof
  assume ns: "\<not> isSlipping p"
  have v: "slipVelocity (slip f rnd p) = (3 + f * 5) * (1 - slipResistance (stats p))"
    by (simp add: slip_fresh [OF ns])
  have e: "effectiveSlipVelocity (slip f rnd p) =
             (3 + f * 5) * (1 - slipResistance (stats p))^2"
    by (simp add: slip_fresh [OF ns] effectiveSlipVelocity_def power2_eq_square)
  have s: "isSlipping (slip f rnd p)"
    by (simp add: slip_fresh [OF ns])
  have x: "cx (position (slip f rnd p)) = cx (position p)"
    by (simp add: slip_fresh [OF ns])
  show "slipVelocity (slip f rnd p) = (3 + f * 5) * (1 - slipResistance (stats p)) \<and>
     effectiveSlipVelocity (slip f rnd p) = (3 + f * 5) * (1 - slipResistance (stats p))^2 \<and>
     cx (position (Player_update dt (slip f rnd p))) =
       (let nx = cx (position p) +
                 ((3 + f * 5) * (1 - slipResistance (stats p))^2) * dt
                   * slipDirection (slip f rnd p)
        in if nx > laneLimit then laneLimit
           else if nx < - laneLimit then - laneLimit else nx)"
    using v e by (simp add: cx_Player_update_slipping [OF s] x)
qed

theorem slip_resistance_twice_witness:
  "\<not> isSlipping purpleGiant \<and>
   slipResistance (stats purpleGiant) = 1/2 \<and>
   slipVelocity (slip (1/2) (7/10) purpleGiant) = 11/4 \<and>
   effectiveSlipVelocity (slip (1/2) (7/10) purpleGiant) = 11/8 \<and>
   cx (position (Player_update (1/10) (slip (1/2) (7/10) purpleGiant))) = 11/80"
proof -
  have a: "\<not> isSlipping purpleGiant" "slipResistance (stats purpleGiant) = 1/2"
    "cx (position purpleGiant) = 0"
    by (simp_all add: purpleGiant_def setCharacterType_def newPlayer_def mkStats_def vec_def)
  have d: "slipDirection (slip (1/2) (7/10) purpleGiant) = 1"
    by (simp add: slip_fresh a)
  show ?thesis
    using slip_resistance_twice [of purpleGiant "1/2" "7/10" "1/10"]
    by (simp add: a d laneLimit_def LANE_WIDTH_def TOTAL_LANES_def power2_eq_square Let_def)
qed

section \<open>Egg: freshness\<close>

text \<open>
  What \<open>getFreshness\<close> computes: 0 for an unbroken egg; for a broken egg
  \<open>max(0, 1 - age / lifespan)\<close>, which is 1 at age 0, 0 from age \<open>lifespan\<close> on, and
  does not increase with age.
\<close>

lemma getFreshness_decay:
  "(\<not> isBroken e \<longrightarrow> getFreshness e = 0) \<and>
   (isBroken e \<longrightarrow> getFreshness e = max 0 (1 - age e / lifespan e)) \<and>
   (isBroken e \<and> age e = 0 \<longrightarrow> getFreshness e = 1) \<and>
   (isBroken e \<and> lifespan e > 0 \<and> age e \<ge> lifespan e \<longrightarrow> getFreshness e = 0) \<and>
   (isBroken e \<and> lifespan e > 0 \<and> a \<le> b \<longrightarrow>
      getFreshness (e\<lparr>age := b\<rparr>) \<le> getFreshness (e\<lparr>age := a\<rparr>))"
  by (auto simp: getFreshness_def max_def divide_right_mono field_simps)

lemma egg4:
  "eggAfterFrames 4 thrownEgg =
     \<lparr>position = vec (8/3) (21/20) 11, eggVelocity = vec 0 (-7) (-10), isBroken = False,
      age = 2/5, lifespan = 5, isFixedInPlace = False, worldPosition = vec 0 0 0,
      hasHitGround = False, markedForRemoval = False\<rparr>"
  by (simp add: eval_nat_numeral thrownEgg_def newEgg_def Egg_update_def vec_def
      GRAVITY_def Let_def createBrokenEggEffect_def)

lemma egg5:
  "eggAfterFrames 5 thrownEgg =
     \<lparr>position = vec (8/3) (1/4) 10, eggVelocity = vec 0 (-10) (-10), isBroken = True,
      age = 1/2, lifespan = 5, isFixedInPlace = True, worldPosition = vec (8/3) (1/4) 10,
      hasHitGround = True, markedForRemoval = False\<rparr>"
proof -
  have "eggAfterFrames 5 thrownEgg = Egg_update (1/10) 0 (eggAfterFrames 4 thrownEgg)"
    by (simp add: eval_nat_numeral)
  also have "\<dots> =
     \<lparr>position = vec (8/3) (1/4) 10, eggVelocity = vec 0 (-10) (-10), isBroken = True,
      age = 1/2, lifespan = 5, isFixedInPlace = True, worldPosition = vec (8/3) (1/4) 10,
      hasHitGround = True, markedForRemoval = False\<rparr>"
    unfolding egg4
    by (simp add: Egg_update_def vec_def GRAVITY_def Let_def createBrokenEggEffect_def)
  finally show ?thesis .
qed

text \<open>
  C5. The age of an egg counts from its construction, so the egg is not of age 0 when
  it breaks: the thrown egg is still whole after four frames, breaks in the fifth at age
  0.5, and its freshness at that moment is 0.9, not 1.0.
\<close>

theorem freshness_at_breaking:
  "\<not> isBrokenEgg (eggAfterFrames 4 thrownEgg) \<and>
   isBrokenEgg (eggAfterFrames 5 thrownEgg) \<and>
   age (eggAfterFrames 5 thrownEgg) = 1/2 \<and>
   getFreshness (eggAfterFrames 5 thrownEgg) = 9/10"
  by (simp add: egg4 egg5 isBrokenEgg_def getFreshness_def)

section \<open>Collision test: jumping over obstacles\<close>

text \<open>
  C2. For the player and an obstacle whose bounding boxes intersect while the player
  is currently jumping: if the obstacle's height is below 1.5 and the player's feet
  (\<open>player.y - 1\<close>) are above the obstacle's top (\<open>obstacle.y + height / 2\<close>),
  \<open>checkCollision\<close> returns false; if the height is at least 1.5 it returns true,
  whatever the clearance.
\<close>

theorem jump_over_rule:
  "isCurrentlyJumping p \<longrightarrow>
     (getHeight ob < 1.5 \<and> cy (position p) - 1 > cy (position ob) + getHeight ob / 2 \<longrightarrow>
        \<not> checkCollision p (Some PlayerE) (Some (ObstacleE ob)) True) \<and>
     (getHeight ob \<ge> 1.5 \<longrightarrow>
        checkCollision p (Some PlayerE) (Some (ObstacleE ob)) True)"
  by (simp add: checkCollision_def Let_def)

theorem jump_over_rule_witness:
  "isCurrentlyJumping airbornePlayer \<and>
   getHeight (newObstacle 0 0) < 1.5 \<and>
   cy (position airbornePlayer) - 1 >
     cy (position (newObstacle 0 0)) + getHeight (newObstacle 0 0) / 2 \<and>
   \<not> checkCollision airbornePlayer (Some PlayerE) (Some (ObstacleE (newObstacle 0 0))) True \<and>
   getHeight (newObstacle 0 (1/2)) \<ge> 1.5 \<and>
   checkCollision airbornePlayer (Some PlayerE) (Some (ObstacleE (newObstacle 0 (1/2)))) True"
proof -
  have j: "isCurrentlyJumping airbornePlayer" "cy (position airbornePlayer) = 11/5"
    by (simp_all add: airbornePlayer_eval isCurrentlyJumping_def newPlayer_def vec_def)
  have o: "getHeight (newObstacle 0 0) = 1" "cy (position (newObstacle 0 0)) = 1/2"
    "getHeight (newObstacle 0 (1/2)) = 2"
    by (simp_all add: getHeight_def newObstacle_def vec_def Let_def)
  show ?thesis
    using jump_over_rule [of airbornePlayer "newObstacle 0 0"]
      jump_over_rule [of airbornePlayer "newObstacle 0 (1/2)"]
    by (simp add: j o)
qed

section \<open>Game: the scoring fields through one pass of the loop\<close>

lemma scoring_fields:
  "scoring a = scoring b \<Longrightarrow>
   isGameRunning a = isGameRunning b \<and> score a = score b \<and>
   distanceTraveled a = distanceTraveled b \<and> gameSpeed a = gameSpeed b \<and>
   highScore a = highScore b \<and> availableCharacters a = availableCharacters b \<and>
   shop a = shop b \<and> coinAwardTracker a = coinAwardTracker b"
  by (simp add: scoring_def)

lemma scoring_other_fields:
  "scoring (g\<lparr>player := p\<rparr>) = scoring g"
  "scoring (g\<lparr>footGoose := fg\<rparr>) = scoring g"
  "scoring (g\<lparr>obstacles := obs\<rparr>) = scoring g"
  "scoring (g\<lparr>groundZ := z\<rparr>) = scoring g"
  "scoring (g\<lparr>spawnTimer := t\<rparr>) = scoring g"
  "scoring (g\<lparr>spawnInterval := i\<rparr>) = scoring g"
  by (simp_all add: scoring_def)

lemma scoring_updateGround: "scoring (updateGround dt g) = scoring g"
  by (simp add: updateGround_def Let_def scoring_other_fields)

lemma scoring_updateSpawn: "scoring (updateSpawn fr g) = scoring g"
  by (simp add: updateSpawn_def spawnObstacle_def Let_def scoring_other_fields)

lemma scoring_checkEggCollisions: "scoring (checkEggCollisions fr g) = scoring g"
  by (simp add: checkEggCollisions_def scoring_other_fields split: prod.split)

lemma scoring_beforeObstacles:
  "scoring (beforeObstacles fr g) = scoring (updateDistance (deltaTime fr) g)"
  by (simp add: beforeObstacles_def Let_def scoring_updateSpawn scoring_updateGround
      scoring_other_fields)

lemma update_running:
  "isGameRunning g \<Longrightarrow> update fr g = checkCapture fr (beforeCapture fr g)"
  by (simp add: update_def beforeCapture_def beforeObstacles_def Let_def)

lemma updateObstacles_cases:
  "updateObstacles fr (beforeObstacles fr g) =
     (if obstacleHit fr g
      then startGame_running ((beforeObstacles fr g)
             \<lparr>obstacles := rev (fst (obstacleLoop fr (gameSpeed (beforeObstacles fr g))
                 (player (beforeObstacles fr g)) (rev (obstacles (beforeObstacles fr g)))))\<rparr>)
      else (beforeObstacles fr g)
             \<lparr>obstacles := rev (fst (obstacleLoop fr (gameSpeed (beforeObstacles fr g))
                 (player (beforeObstacles fr g)) (rev (obstacles (beforeObstacles fr g)))))\<rparr>)"
  by (simp add: updateObstacles_def obstacleHit_def split: prod.split)

text \<open>What \<open>updateScore\<close> does to each field.\<close>

lemma updateScore_fields:
  "isGameRunning (updateScore g) = isGameRunning g"
  "score (updateScore g) = score g"
  "distanceTraveled (updateScore g) = distanceTraveled g"
  "gameSpeed (updateScore g) = gameSpeed g"
  "player (updateScore g) = player g"
  "footGoose (updateScore g) = footGoose g"
  "obstacles (updateScore g) = obstacles g"
  "groundZ (updateScore g) = groundZ g"
  "spawnTimer (updateScore g) = spawnTimer g"
  "spawnInterval (updateScore g) = spawnInterval g"
  by (simp_all add: updateScore_def Let_def checkCharacterUnlocks_def trackCoinAward_def
      awardCoins_def)

lemma updateScore_highScore: "highScore (updateScore g) = max (highScore g) (score g)"
  by (simp add: updateScore_def Let_def checkCharacterUnlocks_def trackCoinAward_def
      awardCoins_def max_def)

lemma updateScore_tracker:
  "coinAwardTracker (updateScore g) =
     (if score g > 0 \<and> score g mod 100 = 0
      then insert (score g) (coinAwardTracker g) else coinAwardTracker g)"
  by (auto simp: updateScore_def Let_def checkCharacterUnlocks_def trackCoinAward_def
      awardCoins_def hasAwardedCoinForScore_def)

lemma updateScore_shop:
  "shop (updateScore g) =
     (if score g > 0 \<and> score g mod 100 = 0 \<and> score g \<notin> coinAwardTracker g
      then addCoins 10 (shop g) else shop g)"
  by (simp add: updateScore_def Let_def checkCharacterUnlocks_def trackCoinAward_def
      awardCoins_def hasAwardedCoinForScore_def)

lemma updateScore_frame:
  "updateScore g =
     g\<lparr>highScore := highScore (updateScore g),
       availableCharacters := availableCharacters (updateScore g),
       shop := shop (updateScore g),
       coinAwardTracker := coinAwardTracker (updateScore g)\<rparr>"
  by (simp add: updateScore_def Let_def checkCharacterUnlocks_def trackCoinAward_def
      awardCoins_def)

lemma updateScore_characters:
  "availableCharacters (updateScore g) =
     map (\<lambda>character.
            if \<not> char_unlocked character \<and> score g \<ge> unlockScore character
            then character\<lparr>char_unlocked := True\<rparr> else character)
         (availableCharacters g)"
  by (simp add: updateScore_def Let_def checkCharacterUnlocks_def trackCoinAward_def
      awardCoins_def)

lemma updateDistance_fields:
  "isGameRunning (updateDistance dt g) = isGameRunning g"
  "distanceTraveled (updateDistance dt g) = distanceTraveled g + gameSpeed g * dt"
  "score (updateDistance dt g) = \<lfloor>distanceTraveled g + gameSpeed g * dt\<rfloor>"
  "gameSpeed (updateDistance dt g) =
     GAME_SPEED + (distanceTraveled g + gameSpeed g * dt) / 1000"
  by (simp_all add: updateDistance_def Let_def updateScore_fields)

lemma startGame_running_fields:
  "isGameRunning (startGame_running g) = isGameRunning g"
  "score (startGame_running g) = 0"
  "distanceTraveled (startGame_running g) = 0"
  "gameSpeed (startGame_running g) = GAME_SPEED"
  "player (startGame_running g) = reset (player g)"
  "footGoose (startGame_running g) = FootGoose_reset (footGoose g)"
  "obstacles (startGame_running g) = []"
  "spawnTimer (startGame_running g) = 0"
  "spawnInterval (startGame_running g) = 2000"
  "shop (startGame_running g) = shop g"
  "coinAwardTracker (startGame_running g) = coinAwardTracker g"
  "highScore (startGame_running g) = max (highScore g) 0"
  "availableCharacters (startGame_running g) =
     map (\<lambda>character.
            if \<not> char_unlocked character \<and> 0 \<ge> unlockScore character
            then character\<lparr>char_unlocked := True\<rparr> else character)
         (availableCharacters g)"
  by (simp_all add: startGame_running_def Let_def updateScore_fields updateScore_shop
      updateScore_tracker updateScore_highScore updateScore_characters)

lemma checkCollision_no_boxes: "\<not> checkCollision p a b False"
  by (simp add: checkCollision_def split: option.split)

lemma checkCollision_goose:
  "checkCollision p (Some PlayerE) (Some FootGooseE) b = b"
  by (simp add: checkCollision_def)

lemma obstacleLoop_no_boxes:
  "(\<And>ob. \<not> boxesObstacle fr ob) \<Longrightarrow> \<not> snd (obstacleLoop fr speed p obs)"
  by (induction obs) (auto simp: Let_def checkCollision_no_boxes split: prod.split)

lemma eggCollision_no_boxes:
  "(\<And>egg. \<not> boxesEgg fr egg) \<Longrightarrow> eggCollision fr egg p = (egg, p)"
  by (simp add: eggCollision_def checkCollision_no_boxes)

lemma eggCollisionLoop_no_boxes:
  "(\<And>egg. \<not> boxesEgg fr egg) \<Longrightarrow> eggCollisionLoop fr es p = (es, p)"
  by (induction es) (simp_all add: eggCollision_no_boxes)

lemma obstacleLoop_boxesFootGoose:
  "obstacleLoop (fr\<lparr>boxesFootGoose := b\<rparr>) speed p obs = obstacleLoop fr speed p obs"
  by (induction obs) (simp_all add: Let_def)

lemma eggCollisionLoop_boxesFootGoose:
  "eggCollisionLoop (fr\<lparr>boxesFootGoose := b\<rparr>) es p = eggCollisionLoop fr es p"
  by (induction es arbitrary: p) (simp_all add: eggCollision_def)

lemma throwEgg_boxesFootGoose:
  "throwEgg (fr\<lparr>boxesFootGoose := b\<rparr>) fg = throwEgg fr fg"
  unfolding throwEgg_def by (simp add: Let_def)

lemma updateEggThrow_boxesFootGoose:
  "updateEggThrow (fr\<lparr>boxesFootGoose := b\<rparr>) fg = updateEggThrow fr fg"
  unfolding updateEggThrow_def throwEgg_boxesFootGoose
  by (simp add: Let_def cong: if_cong split del: if_split)

lemma updateGooseJump_boxesFootGoose:
  "updateGooseJump (fr\<lparr>boxesFootGoose := b\<rparr>) fg = updateGooseJump fr fg"
  unfolding updateGooseJump_def
  by (simp add: Let_def cong: if_cong split del: if_split)

lemma updateGooseLane_boxesFootGoose:
  "updateGooseLane (fr\<lparr>boxesFootGoose := b\<rparr>) p fg = updateGooseLane fr p fg"
  unfolding updateGooseLane_def
  by (simp add: Let_def cong: if_cong split del: if_split)

lemma FootGoose_update_boxesFootGoose:
  "FootGoose_update (fr\<lparr>boxesFootGoose := b\<rparr>) p fg = FootGoose_update fr p fg"
  unfolding FootGoose_update_def updateEggThrow_boxesFootGoose updateGooseJump_boxesFootGoose
    updateGooseLane_boxesFootGoose
  by simp

lemma spawnObstacle_boxesFootGoose:
  "spawnObstacle (fr\<lparr>boxesFootGoose := b\<rparr>) g = spawnObstacle fr g"
  unfolding spawnObstacle_def by (simp add: Let_def)

lemma updateSpawn_boxesFootGoose:
  "updateSpawn (fr\<lparr>boxesFootGoose := b\<rparr>) g = updateSpawn fr g"
  unfolding updateSpawn_def spawnObstacle_boxesFootGoose
  by (simp add: Let_def cong: if_cong split del: if_split)

lemma beforeObstacles_boxesFootGoose:
  "beforeObstacles (fr\<lparr>boxesFootGoose := b\<rparr>) g = beforeObstacles fr g"
  unfolding beforeObstacles_def FootGoose_update_boxesFootGoose updateSpawn_boxesFootGoose
  by (simp add: Let_def)

lemma obstacleHit_boxesFootGoose:
  "obstacleHit (fr\<lparr>boxesFootGoose := b\<rparr>) g = obstacleHit fr g"
  by (simp add: obstacleHit_def beforeObstacles_boxesFootGoose obstacleLoop_boxesFootGoose)

lemma beforeCapture_boxesFootGoose:
  "beforeCapture (fr\<lparr>boxesFootGoose := b\<rparr>) g = beforeCapture fr g"
  by (simp add: beforeCapture_def beforeObstacles_boxesFootGoose updateObstacles_def
      checkEggCollisions_def obstacleLoop_boxesFootGoose eggCollisionLoop_boxesFootGoose)

lemma checkCapture_cases:
  "checkCapture fr g =
     (if boxesFootGoose fr
      then (updateScore (g\<lparr>score := score g + 1000\<rparr>))
             \<lparr>footGoose := FootGoose_reset (footGoose g)\<rparr>
      else g)"
  by (simp add: checkCapture_def checkCollision_goose Let_def updateScore_fields)

lemma update_no_capture:
  "isGameRunning g \<Longrightarrow> update (fr\<lparr>boxesFootGoose := False\<rparr>) g = beforeCapture fr g"
  by (simp add: update_running checkCapture_cases beforeCapture_boxesFootGoose)

lemma scoring_beforeCapture:
  "scoring (beforeCapture fr g) =
     (if obstacleHit fr g
      then scoring (startGame_running (updateDistance (deltaTime fr) g))
      else scoring (updateDistance (deltaTime fr) g))"
proof -
  have r: "scoring (startGame_running (a\<lparr>obstacles := obs\<rparr>)) = scoring (startGame_running b)"
    if "scoring a = scoring b" for a b obs
    using scoring_fields [OF that]
    by (simp add: scoring_def startGame_running_fields)
  show ?thesis
    unfolding beforeCapture_def scoring_checkEggCollisions updateObstacles_cases
    by (simp add: scoring_other_fields scoring_beforeObstacles r)
qed

lemma beforeCapture_fields:
  "isGameRunning (beforeCapture fr g) = isGameRunning g"
  "distanceTraveled (beforeCapture fr g) =
     (if obstacleHit fr g then 0 else distanceTraveled g + gameSpeed g * deltaTime fr)"
  "score (beforeCapture fr g) = \<lfloor>distanceTraveled (beforeCapture fr g)\<rfloor>"
proof -
  have s: "scoring (beforeCapture fr g) =
     (if obstacleHit fr g
      then scoring (startGame_running (updateDistance (deltaTime fr) g))
      else scoring (updateDistance (deltaTime fr) g))"
    by (rule scoring_beforeCapture)
  show "isGameRunning (beforeCapture fr g) = isGameRunning g"
    using s by (simp add: scoring_def startGame_running_fields updateDistance_fields
        split: if_splits)
  show d: "distanceTraveled (beforeCapture fr g) =
     (if obstacleHit fr g then 0 else distanceTraveled g + gameSpeed g * deltaTime fr)"
    using s by (simp add: scoring_def startGame_running_fields updateDistance_fields
        split: if_splits)
  show "score (beforeCapture fr g) = \<lfloor>distanceTraveled (beforeCapture fr g)\<rfloor>"
    unfolding d
    using s by (simp add: scoring_def startGame_running_fields updateDistance_fields
        split: if_splits)
qed

lemma updateDistance_ignores_score:
  "updateDistance dt (g\<lparr>score := s\<rparr>) = updateDistance dt g"
  by (simp add: updateDistance_def)

lemma update_ignores_score:
  "isGameRunning g \<Longrightarrow> update fr (g\<lparr>score := s\<rparr>) = update fr g"
  by (simp add: update_def updateDistance_ignores_score)

lemma update_fields:
  assumes "isGameRunning g"
  shows "isGameRunning (update fr g)"
    and "distanceTraveled (update fr g) =
           (if obstacleHit fr g then 0 else distanceTraveled g + gameSpeed g * deltaTime fr)"
    and "score (update fr g) =
           \<lfloor>distanceTraveled (update fr g)\<rfloor> + (if boxesFootGoose fr then 1000 else 0)"
  using assms
  by (simp_all add: update_running checkCapture_cases updateScore_fields beforeCapture_fields)

lemma update_capture:
  "isGameRunning g \<Longrightarrow> boxesFootGoose fr \<Longrightarrow>
   update fr g =
     (updateScore ((update (fr\<lparr>boxesFootGoose := False\<rparr>) g)
        \<lparr>score := score (update (fr\<lparr>boxesFootGoose := False\<rparr>) g) + 1000\<rparr>))
     \<lparr>footGoose := FootGoose_reset (footGoose (update (fr\<lparr>boxesFootGoose := False\<rparr>) g))\<rparr>"
  by (simp add: update_no_capture) (simp add: update_running checkCapture_cases)

section \<open>Game: the state the first frame runs on\<close>

lemma startGame_already_running:
  "isGameRunning g \<Longrightarrow> startGame fr g = Returned (startGame_running g)"
  by (simp add: startGame_def)

lemma startGame_fresh:
  "\<not> isGameRunning g \<Longrightarrow>
   startGame fr g =
     (case applyPurchasedPowerups (beforePowerups g) of
        Threw g3 \<Rightarrow> Threw g3
      | Returned g3 \<Rightarrow>
          Returned (resetCoinTracker
            (update fr (g3\<lparr>obstacles := [], spawnTimer := 0, spawnInterval := 2000\<rparr>))))"
  by (simp add: startGame_def beforePowerups_def andThen_def Let_def split: outcome.split)

lemma applyPowerup_gamePage:
  "applyPowerup gamePage ''magnet'' v p = Returned (p\<lparr>magnetRange := v\<rparr>)"
  "applyPowerup gamePage ''shield'' v p = Threw (p\<lparr>isShielded := True\<rparr>)"
  by (simp_all add: applyPowerup_def getScreenPosition_def gamePage_def)

lemma applyPurchasedPowerups_cases:
  "applyPurchasedPowerups g =
     (if isItemPurchased ''shield'' (shop g)
      then Threw (g\<lparr>player := (if isItemPurchased ''magnet'' (shop g)
                                then (player g)\<lparr>magnetRange := 3\<rparr> else player g)
                         \<lparr>isShielded := True\<rparr>\<rparr>)
      else Returned (applyPurchasedSkins (applyPurchasedShoes
             (g\<lparr>player := (if isItemPurchased ''magnet'' (shop g)
                            then (player g)\<lparr>magnetRange := 3\<rparr> else player g),
                distanceTraveled :=
                  distanceTraveled g
                    + (if isItemPurchased ''head_start'' (shop g) then 500 else 0)\<rparr>))))"
  by (simp add: applyPurchasedPowerups_def andThen_def onPlayer_def applyPowerup_gamePage
      Let_def)

lemma returned_applyPurchasedPowerups:
  "returned (applyPurchasedPowerups g) \<longleftrightarrow> \<not> isItemPurchased ''shield'' (shop g)"
  by (simp add: applyPurchasedPowerups_cases stateAfter_simps)

lemma isShielded_styles:
  "isShielded (setShoeStyle v p) = isShielded p"
  "isShielded (setSkinStyle v p) = isShielded p"
  "magnetRange (setShoeStyle v p) = magnetRange p"
  "magnetRange (setSkinStyle v p) = magnetRange p"
  by (simp_all add: setShoeStyle_def setSkinStyle_def)

lemma applyPurchasedShoes_fields:
  "scoring (applyPurchasedShoes g) = scoring g"
  "isShielded (player (applyPurchasedShoes g)) = isShielded (player g)"
  "magnetRange (player (applyPurchasedShoes g)) = magnetRange (player g)"
  "obstacles (applyPurchasedShoes g) = obstacles g"
  by (simp_all add: applyPurchasedShoes_def scoring_other_fields isShielded_styles
      split: option.split)

lemma applyPurchasedSkins_fields:
  "scoring (applyPurchasedSkins g) = scoring g"
  "isShielded (player (applyPurchasedSkins g)) = isShielded (player g)"
  "magnetRange (player (applyPurchasedSkins g)) = magnetRange (player g)"
  "obstacles (applyPurchasedSkins g) = obstacles g"
  by (simp_all add: applyPurchasedSkins_def scoring_other_fields isShielded_styles
      split: option.split)

lemma applyPurchasedPowerups_player:
  "isShielded (player (stateAfter (applyPurchasedPowerups g))) =
     (isItemPurchased ''shield'' (shop g) \<or> isShielded (player g))"
  "magnetRange (player (stateAfter (applyPurchasedPowerups g))) =
     (if isItemPurchased ''magnet'' (shop g) then 3 else magnetRange (player g))"
  "obstacles (stateAfter (applyPurchasedPowerups g)) = obstacles g"
  by (simp_all add: applyPurchasedPowerups_cases stateAfter_simps applyPurchasedShoes_fields
      applyPurchasedSkins_fields)

lemma applyPurchasedPowerups_scoring:
  "scoring (stateAfter (applyPurchasedPowerups g)) =
     scoring (g\<lparr>distanceTraveled :=
                  distanceTraveled g
                    + (if isItemPurchased ''head_start'' (shop g)
                          \<and> \<not> isItemPurchased ''shield'' (shop g) then 500 else 0)\<rparr>)"
  by (simp add: applyPurchasedPowerups_cases stateAfter_simps applyPurchasedShoes_fields
      applyPurchasedSkins_fields) (simp add: scoring_def)

lemma beforePowerups_fields:
  "scoring (beforePowerups g) =
     (True, 0, 0, GAME_SPEED, highScore (beforePowerups g),
      availableCharacters (beforePowerups g), shop g, coinAwardTracker g)"
  "player (beforePowerups g) = reset (player g)"
  "footGoose (beforePowerups g) = FootGoose_reset (footGoose g)"
  "obstacles (beforePowerups g) = obstacles g"
  by (simp_all add: beforePowerups_def Let_def scoring_def updateScore_fields updateScore_shop
      updateScore_tracker)

lemma shop_beforePowerups: "shop (beforePowerups g) = shop g"
  using beforePowerups_fields(1) [of g] by (simp add: scoring_def)

lemma powerupState_fields:
  "isGameRunning (stateAfter (applyPurchasedPowerups (beforePowerups g)))"
  "score (stateAfter (applyPurchasedPowerups (beforePowerups g))) = 0"
  "distanceTraveled (stateAfter (applyPurchasedPowerups (beforePowerups g))) =
     (if isItemPurchased ''head_start'' (shop g) \<and> \<not> isItemPurchased ''shield'' (shop g)
      then 500 else 0)"
  "gameSpeed (stateAfter (applyPurchasedPowerups (beforePowerups g))) = GAME_SPEED"
  "shop (stateAfter (applyPurchasedPowerups (beforePowerups g))) = shop g"
  "coinAwardTracker (stateAfter (applyPurchasedPowerups (beforePowerups g))) =
     coinAwardTracker g"
proof -
  have "scoring (stateAfter (applyPurchasedPowerups (beforePowerups g))) =
      (True, 0,
       (if isItemPurchased ''head_start'' (shop g) \<and> \<not> isItemPurchased ''shield'' (shop g)
        then 500 else 0),
       GAME_SPEED, highScore (beforePowerups g), availableCharacters (beforePowerups g),
       shop g, coinAwardTracker g)"
    using beforePowerups_fields(1) [of g]
    by (simp add: applyPurchasedPowerups_scoring shop_beforePowerups) (simp add: scoring_def)
  then show "isGameRunning (stateAfter (applyPurchasedPowerups (beforePowerups g)))"
    "score (stateAfter (applyPurchasedPowerups (beforePowerups g))) = 0"
    "distanceTraveled (stateAfter (applyPurchasedPowerups (beforePowerups g))) =
       (if isItemPurchased ''head_start'' (shop g) \<and> \<not> isItemPurchased ''shield'' (shop g)
        then 500 else 0)"
    "gameSpeed (stateAfter (applyPurchasedPowerups (beforePowerups g))) = GAME_SPEED"
    "shop (stateAfter (applyPurchasedPowerups (beforePowerups g))) = shop g"
    "coinAwardTracker (stateAfter (applyPurchasedPowerups (beforePowerups g))) =
       coinAwardTracker g"
    by (simp_all add: scoring_def)
qed

lemma powerupState_player:
  "isShielded (player (stateAfter (applyPurchasedPowerups (beforePowerups g)))) =
     isItemPurchased ''shield'' (shop g)"
  "magnetRange (player (stateAfter (applyPurchasedPowerups (beforePowerups g)))) =
     (if isItemPurchased ''magnet'' (shop g) then 3 else 0)"
  "obstacles (stateAfter (applyPurchasedPowerups (beforePowerups g))) = obstacles g"
  by (simp_all add: applyPurchasedPowerups_player shop_beforePowerups beforePowerups_fields
      reset_def)

lemma startGame_fresh_returns:
  "\<not> isGameRunning g \<Longrightarrow> \<not> isItemPurchased ''shield'' (shop g) \<Longrightarrow>
   startGame fr g = Returned (resetCoinTracker (update fr (startGame_prepared g)))"
  by (simp add: startGame_fresh startGame_prepared_def applyPurchasedPowerups_cases
      shop_beforePowerups stateAfter_simps)

lemma startGame_fresh_throws:
  "\<not> isGameRunning g \<Longrightarrow> isItemPurchased ''shield'' (shop g) \<Longrightarrow>
   startGame fr g = Threw (stateAfter (applyPurchasedPowerups (beforePowerups g)))"
  by (simp add: startGame_fresh applyPurchasedPowerups_cases
      shop_beforePowerups stateAfter_simps)

lemma startGame_prepared_fields:
  "isGameRunning (startGame_prepared g)"
  "score (startGame_prepared g) = 0"
  "distanceTraveled (startGame_prepared g) =
     (if isItemPurchased ''head_start'' (shop g) \<and> \<not> isItemPurchased ''shield'' (shop g)
      then 500 else 0)"
  "gameSpeed (startGame_prepared g) = GAME_SPEED"
  "shop (startGame_prepared g) = shop g"
  "coinAwardTracker (startGame_prepared g) = coinAwardTracker g"
  "obstacles (startGame_prepared g) = []"
  by (simp_all add: startGame_prepared_def powerupState_fields)

lemma startGame_prepared_player:
  "isShielded (player (startGame_prepared g)) = isItemPurchased ''shield'' (shop g)"
  "magnetRange (player (startGame_prepared g)) =
     (if isItemPurchased ''magnet'' (shop g) then 3 else 0)"
  by (simp_all add: startGame_prepared_def powerupState_player)

section \<open>Game: frames in which nothing is hit\<close>

lemma obstacleHit_no_boxes: "(\<And>ob. \<not> boxesObstacle fr ob) \<Longrightarrow> \<not> obstacleHit fr g"
  by (simp add: obstacleHit_def obstacleLoop_no_boxes)

lemma update_quiet_scoring:
  "isGameRunning g \<Longrightarrow> (\<And>ob. \<not> boxesObstacle fr ob) \<Longrightarrow> \<not> boxesFootGoose fr \<Longrightarrow>
   scoring (update fr g) = scoring (updateDistance (deltaTime fr) g)"
  by (simp add: update_running checkCapture_cases scoring_beforeCapture obstacleHit_no_boxes)

lemma updateDistance_coins:
  "shop (updateDistance dt g) =
     (if \<lfloor>distanceTraveled g + gameSpeed g * dt\<rfloor> > 0
         \<and> \<lfloor>distanceTraveled g + gameSpeed g * dt\<rfloor> mod 100 = 0
         \<and> \<lfloor>distanceTraveled g + gameSpeed g * dt\<rfloor> \<notin> coinAwardTracker g
      then addCoins 10 (shop g) else shop g)"
  "coinAwardTracker (updateDistance dt g) =
     (if \<lfloor>distanceTraveled g + gameSpeed g * dt\<rfloor> > 0
         \<and> \<lfloor>distanceTraveled g + gameSpeed g * dt\<rfloor> mod 100 = 0
      then insert \<lfloor>distanceTraveled g + gameSpeed g * dt\<rfloor> (coinAwardTracker g)
      else coinAwardTracker g)"
  by (simp_all add: updateDistance_def Let_def updateScore_shop updateScore_tracker)

lemma isShielded_updateJump: "isShielded (updateJump dt p) = isShielded p"
  by (simp add: updateJump_def Let_def)

lemma isShielded_updateSafetyTimer: "isShielded (updateSafetyTimer dt p) = isShielded p"
  by (simp add: updateSafetyTimer_def)

lemma isShielded_updateSlip: "isShielded (updateSlip dt p) = isShielded p"
  by (simp add: updateSlip_def Let_def)

lemma isShielded_updateLane: "isShielded (updateLane dt p) = isShielded p"
  by (simp add: updateLane_def Let_def)

lemma isShielded_Player_update: "isShielded (Player_update dt p) = isShielded p"
  by (simp add: Player_update_def Let_def isShielded_updateSlip isShielded_updateLane
      isShielded_updateSafetyTimer isShielded_updateJump)

lemma player_updateObstacles_no_hit:
  "\<not> obstacleHit fr g \<Longrightarrow>
   player (updateObstacles fr (beforeObstacles fr g)) = player (beforeObstacles fr g)"
  by (simp add: updateObstacles_cases)

lemma player_beforeObstacles:
  "player (beforeObstacles fr g) = Player_update (deltaTime fr) (player g)"
  by (simp add: beforeObstacles_def Let_def updateSpawn_def spawnObstacle_def updateGround_def
      updateDistance_def updateScore_fields)

lemma player_update_quiet:
  assumes "isGameRunning g" and "\<And>ob. \<not> boxesObstacle fr ob"
    and "\<And>egg. \<not> boxesEgg fr egg" and "\<not> boxesFootGoose fr"
  shows "player (update fr g) = Player_update (deltaTime fr) (player g)"
proof -
  have "player (update fr g) = player (beforeCapture fr g)"
    using assms(1,4) by (simp add: update_running checkCapture_cases)
  also have "\<dots> = player (updateObstacles fr (beforeObstacles fr g))"
    by (simp add: beforeCapture_def checkEggCollisions_def eggCollisionLoop_no_boxes [OF assms(3)])
  also have "\<dots> = player (beforeObstacles fr g)"
    by (rule player_updateObstacles_no_hit) (rule obstacleHit_no_boxes, rule assms(2))
  finally show ?thesis
    by (simp add: player_beforeObstacles)
qed

lemma quietFrame_fields:
  "deltaTime (quietFrame dt) = dt"
  "\<not> boxesObstacle (quietFrame dt) ob"
  "\<not> boxesEgg (quietFrame dt) egg"
  "\<not> boxesFootGoose (quietFrame dt)"
  by (simp_all add: quietFrame_def)

section \<open>Game: evaluation of the concrete runs\<close>

lemma newGame_fields:
  "\<not> isGameRunning (newGame sh)" "shop (newGame sh) = sh" "coinAwardTracker (newGame sh) = {}"
  by (simp_all add: newGame_def)

lemma initializeItems_unpurchased: "item \<in> set initializeItems \<Longrightarrow> \<not> purchased item"
  by (auto simp: initializeItems_def mkItem_def)

lemma newShop_nothing_purchased: "\<not> isItemPurchased k (newShop c)"
proof (cases "findItem k (newShop c)")
  case None
  then show ?thesis by (simp add: isItemPurchased_def)
next
  case (Some item)
  then have "item \<in> set initializeItems"
    by (auto simp: findItem_def newShop_def find_Some_iff)
  then have "\<not> purchased item"
    by (rule initializeItems_unpurchased)
  with Some show ?thesis by (simp add: isItemPurchased_def)
qed

lemma startedGame_fields:
  "isGameRunning startedGame"
  "score startedGame = 0"
  "distanceTraveled startedGame = 0"
  "gameSpeed startedGame = 20"
  "shop startedGame = newShop 0"
  "coinAwardTracker startedGame = {}"
proof -
  let ?p = "startGame_prepared (newGame (newShop 0))"
  have e: "startedGame = resetCoinTracker (update (quietFrame 0) ?p)"
    by (simp add: startedGame_def startGame_fresh_returns newGame_fields
        newShop_nothing_purchased stateAfter_simps)
  have "scoring (update (quietFrame 0) ?p) = scoring (updateDistance 0 ?p)"
    using update_quiet_scoring [of ?p "quietFrame 0"]
    by (simp add: quietFrame_fields startGame_prepared_fields)
  then have f: "scoring (update (quietFrame 0) ?p) =
      (True, 0, 0, 20, highScore (update (quietFrame 0) ?p),
       availableCharacters (update (quietFrame 0) ?p), newShop 0, {})"
    by (simp add: scoring_def updateDistance_fields updateDistance_coins
        startGame_prepared_fields newGame_fields newShop_nothing_purchased GAME_SPEED_def)
  show "isGameRunning startedGame" "score startedGame = 0" "distanceTraveled startedGame = 0"
    "gameSpeed startedGame = 20" "shop startedGame = newShop 0"
    "coinAwardTracker startedGame = {}"
    using f unfolding e by (simp_all add: scoring_def resetCoinTracker_def)
qed

lemma firstRun_fields:
  "isGameRunning firstRun"
  "score firstRun = 100"
  "distanceTraveled firstRun = 100"
  "shop firstRun = addCoins 10 (newShop 0)"
  "coinAwardTracker firstRun = {100}"
proof -
  have "scoring firstRun = scoring (updateDistance 5 startedGame)"
    unfolding firstRun_def
    using update_quiet_scoring [of startedGame "quietFrame 5"]
    by (simp add: quietFrame_fields startedGame_fields)
  then have f: "scoring firstRun =
      (True, 100, 100, gameSpeed firstRun, highScore firstRun, availableCharacters firstRun,
       addCoins 10 (newShop 0), {100})"
    by (simp add: scoring_def updateDistance_fields updateDistance_coins startedGame_fields)
  show "isGameRunning firstRun" "score firstRun = 100" "distanceTraveled firstRun = 100"
    "shop firstRun = addCoins 10 (newShop 0)" "coinAwardTracker firstRun = {100}"
    using f by (simp_all add: scoring_def)
qed

lemma restarted_fields:
  "returned (startGame (quietFrame 0) firstRun)"
  "isGameRunning (stateAfter (startGame (quietFrame 0) firstRun))"
  "score (stateAfter (startGame (quietFrame 0) firstRun)) = 0"
  "distanceTraveled (stateAfter (startGame (quietFrame 0) firstRun)) = 0"
  "gameSpeed (stateAfter (startGame (quietFrame 0) firstRun)) = 20"
  "shop (stateAfter (startGame (quietFrame 0) firstRun)) = addCoins 10 (newShop 0)"
  "coinAwardTracker (stateAfter (startGame (quietFrame 0) firstRun)) = {100}"
  by (simp_all add: startGame_already_running firstRun_fields startGame_running_fields
      GAME_SPEED_def stateAfter_simps)

lemma startedGame_returned: "returned (startGame (quietFrame 0) (newGame (newShop 0)))"
  by (simp add: startGame_fresh_returns newGame_fields newShop_nothing_purchased
      stateAfter_simps)

lemma secondRun_fields:
  "score secondRun = 100"
  "shop secondRun = addCoins 10 (newShop 0)"
proof -
  have "scoring secondRun =
          scoring (updateDistance 5 (stateAfter (startGame (quietFrame 0) firstRun)))"
    unfolding secondRun_def
    using update_quiet_scoring [of "stateAfter (startGame (quietFrame 0) firstRun)"
        "quietFrame 5"]
    by (simp add: quietFrame_fields restarted_fields)
  then have f: "scoring secondRun =
      (True, 100, 100, gameSpeed secondRun, highScore secondRun, availableCharacters secondRun,
       addCoins 10 (newShop 0), {100})"
    by (simp add: scoring_def updateDistance_fields updateDistance_coins restarted_fields)
  show "score secondRun = 100" "shop secondRun = addCoins 10 (newShop 0)"
    using f by (simp_all add: scoring_def)
qed

lemma updateScore_shop_again: "shop (updateScore (updateScore g)) = shop (updateScore g)"
  by (auto simp: updateScore_shop updateScore_fields updateScore_tracker)

lemma updateScore_tracker_again:
  "coinAwardTracker (updateScore (updateScore g)) = coinAwardTracker (updateScore g)"
  by (auto simp: updateScore_fields updateScore_tracker)

text \<open>
  C4. Within a run a repeated \<open>updateScore\<close> at the same score awards nothing more
  (\<open>updateScore_shop_again\<close>). But a restart of a running game does not clear the award
  tracker: \<open>startGame()\<close> from the start screen returns, and the first run is awarded 10
  coins at score 100; \<open>startGame()\<close> on the running game returns with the score 0 and
  the tracker still holding 100; the second run reaches score 100 and the balance is
  still 10.
\<close>

theorem coin_tracker_survives_restart:
  "returned (startGame (quietFrame 0) (newGame (newShop 0))) \<and>
   score firstRun = 100 \<and> coins (shop firstRun) = 10 \<and> coinAwardTracker firstRun = {100} \<and>
   isGameRunning firstRun \<and>
   returned (startGame (quietFrame 0) firstRun) \<and>
   score (stateAfter (startGame (quietFrame 0) firstRun)) = 0 \<and>
   coinAwardTracker (stateAfter (startGame (quietFrame 0) firstRun)) = {100} \<and>
   score secondRun = 100 \<and> coins (shop secondRun) = 10"
proof -
  have c: "coins (addCoins 10 (newShop 0)) = 10"
    by (simp add: addCoins_def newShop_def)
  show ?thesis
    by (simp add: firstRun_fields restarted_fields secondRun_fields startedGame_returned c)
qed

section \<open>Game: the two branches of startGame\<close>

lemma reset_fields:
  "lane (reset p) = 0" "position (reset p) = vec 0 0.75 0" "velocity (reset p) = vec 0 0 0"
  "\<not> isJumping (reset p)" "\<not> isSlipping (reset p)"
  "\<not> isShielded (reset p)" "magnetRange (reset p) = 0"
  by (simp_all add: reset_def)

lemma FootGoose_reset_fields:
  "gooseLane (FootGoose_reset fg) = 1"
  "position (FootGoose_reset fg) = vec (8/3) 0.75 15"
  "gooseVelocity (FootGoose_reset fg) = vec 0 0 0"
  "\<not> gooseIsJumping (FootGoose_reset fg)"
  "eggs (FootGoose_reset fg) = []"
  "jumpTimer (FootGoose_reset fg) = 0"
  "laneChangeTimer (FootGoose_reset fg) = 0"
  "eggThrowTimer (FootGoose_reset fg) = 0"
  "\<not> isThrowingEgg (FootGoose_reset fg)"
  by (simp_all add: FootGoose_reset_def LANE_WIDTH_def TOTAL_LANES_def)

lemma startGame_running_explicit:
  "startGame_running g =
     (updateScore (g\<lparr>score := 0, distanceTraveled := 0, gameSpeed := GAME_SPEED\<rparr>))
       \<lparr>player := reset (player g), footGoose := FootGoose_reset (footGoose g),
        obstacles := [], spawnTimer := 0, spawnInterval := 2000\<rparr>"
  by (simp add: startGame_running_def Let_def updateScore_fields)

text \<open>
  C8. On a running game \<open>startGame()\<close> returns, and it is the in-place reset: score and
  distance 0, game speed \<open>GAME_SPEED\<close>, the player reset (lane 0, position
  (0, 0.75, 0), at rest, not jumping or slipping), the goose reset (lane 1, position
  (8/3, 0.75, 15), at rest, no eggs, timers 0), no obstacles, spawn timer 0 and spawn
  interval 2000. \<open>applyPurchasedPowerups\<close> is not part of it, so the player comes out
  without shield and with magnet range 0 and the distance is 0, whatever was bought, and
  the shop is untouched. On a game that is not running yet \<open>startGame()\<close> does call
  \<open>applyPurchasedPowerups\<close>, on the reset state. When the shield is purchased, that call
  sets the shield flag and then fails, and \<open>startGame()\<close> ends there: it does not return,
  the game is marked running, the player is shielded, and the head start, the clearing of
  the obstacles and of the award tracker are not reached. When the shield is not
  purchased, \<open>startGame()\<close> returns after \<open>update()\<close> has run on a state in which the
  magnet range is 3 when the magnet is purchased and the distance is 500 when the head
  start is purchased.
\<close>

theorem startGame_branches:
  "(isGameRunning g \<longrightarrow>
      startGame fr g =
        Returned ((updateScore (g\<lparr>score := 0, distanceTraveled := 0, gameSpeed := GAME_SPEED\<rparr>))
          \<lparr>player := reset (player g), footGoose := FootGoose_reset (footGoose g),
           obstacles := [], spawnTimer := 0, spawnInterval := 2000\<rparr>) \<and>
      score (stateAfter (startGame fr g)) = 0 \<and>
      distanceTraveled (stateAfter (startGame fr g)) = 0 \<and>
      gameSpeed (stateAfter (startGame fr g)) = GAME_SPEED \<and>
      player (stateAfter (startGame fr g)) = reset (player g) \<and>
      lane (player (stateAfter (startGame fr g))) = 0 \<and>
      position (player (stateAfter (startGame fr g))) = vec 0 0.75 0 \<and>
      velocity (player (stateAfter (startGame fr g))) = vec 0 0 0 \<and>
      \<not> isJumping (player (stateAfter (startGame fr g))) \<and>
      \<not> isSlipping (player (stateAfter (startGame fr g))) \<and>
      footGoose (stateAfter (startGame fr g)) = FootGoose_reset (footGoose g) \<and>
      gooseLane (footGoose (stateAfter (startGame fr g))) = 1 \<and>
      position (footGoose (stateAfter (startGame fr g))) = vec (8/3) 0.75 15 \<and>
      gooseVelocity (footGoose (stateAfter (startGame fr g))) = vec 0 0 0 \<and>
      \<not> gooseIsJumping (footGoose (stateAfter (startGame fr g))) \<and>
      eggs (footGoose (stateAfter (startGame fr g))) = [] \<and>
      jumpTimer (footGoose (stateAfter (startGame fr g))) = 0 \<and>
      laneChangeTimer (footGoose (stateAfter (startGame fr g))) = 0 \<and>
      eggThrowTimer (footGoose (stateAfter (startGame fr g))) = 0 \<and>
      \<not> isThrowingEgg (footGoose (stateAfter (startGame fr g))) \<and>
      obstacles (stateAfter (startGame fr g)) = [] \<and>
      spawnTimer (stateAfter (startGame fr g)) = 0 \<and>
      spawnInterval (stateAfter (startGame fr g)) = 2000 \<and>
      \<not> isShielded (player (stateAfter (startGame fr g))) \<and>
      magnetRange (player (stateAfter (startGame fr g))) = 0 \<and>
      shop (stateAfter (startGame fr g)) = shop g) \<and>
   (\<not> isGameRunning g \<longrightarrow>
      startGame fr g =
        (case applyPurchasedPowerups (beforePowerups g) of
           Threw g3 \<Rightarrow> Threw g3
         | Returned g3 \<Rightarrow>
             Returned (resetCoinTracker
               (update fr (g3\<lparr>obstacles := [], spawnTimer := 0, spawnInterval := 2000\<rparr>)))) \<and>
      player (beforePowerups g) = reset (player g) \<and>
      (isItemPurchased ''shield'' (shop g) \<longrightarrow>
         \<not> returned (startGame fr g) \<and>
         isGameRunning (stateAfter (startGame fr g)) \<and>
         isShielded (player (stateAfter (startGame fr g))) \<and>
         magnetRange (player (stateAfter (startGame fr g))) =
           (if isItemPurchased ''magnet'' (shop g) then 3 else 0) \<and>
         distanceTraveled (stateAfter (startGame fr g)) = 0 \<and>
         obstacles (stateAfter (startGame fr g)) = obstacles g \<and>
         coinAwardTracker (stateAfter (startGame fr g)) = coinAwardTracker g) \<and>
      (\<not> isItemPurchased ''shield'' (shop g) \<longrightarrow>
         startGame fr g = Returned (resetCoinTracker (update fr (startGame_prepared g))) \<and>
         \<not> isShielded (player (startGame_prepared g)) \<and>
         magnetRange (player (startGame_prepared g)) =
           (if isItemPurchased ''magnet'' (shop g) then 3 else 0) \<and>
         distanceTraveled (startGame_prepared g) =
           (if isItemPurchased ''head_start'' (shop g) then 500 else 0)))"
proof (intro conjI impI)
  assume run: "isGameRunning g"
  have e: "stateAfter (startGame fr g) = startGame_running g"
    using run by (simp add: startGame_already_running stateAfter_simps)
  show "startGame fr g =
        Returned ((updateScore (g\<lparr>score := 0, distanceTraveled := 0, gameSpeed := GAME_SPEED\<rparr>))
          \<lparr>player := reset (player g), footGoose := FootGoose_reset (footGoose g),
           obstacles := [], spawnTimer := 0, spawnInterval := 2000\<rparr>)"
    using run by (simp only: startGame_already_running startGame_running_explicit)
  show "score (stateAfter (startGame fr g)) = 0"
    "distanceTraveled (stateAfter (startGame fr g)) = 0"
    "gameSpeed (stateAfter (startGame fr g)) = GAME_SPEED"
    "player (stateAfter (startGame fr g)) = reset (player g)"
    "footGoose (stateAfter (startGame fr g)) = FootGoose_reset (footGoose g)"
    "obstacles (stateAfter (startGame fr g)) = []"
    "spawnTimer (stateAfter (startGame fr g)) = 0"
    "spawnInterval (stateAfter (startGame fr g)) = 2000"
    "shop (stateAfter (startGame fr g)) = shop g"
    unfolding e by (simp_all only: startGame_running_fields)
  show "lane (player (stateAfter (startGame fr g))) = 0"
    "position (player (stateAfter (startGame fr g))) = vec 0 0.75 0"
    "velocity (player (stateAfter (startGame fr g))) = vec 0 0 0"
    "\<not> isJumping (player (stateAfter (startGame fr g)))"
    "\<not> isSlipping (player (stateAfter (startGame fr g)))"
    "\<not> isShielded (player (stateAfter (startGame fr g)))"
    "magnetRange (player (stateAfter (startGame fr g))) = 0"
    unfolding e startGame_running_fields by (simp_all only: reset_fields not_False_eq_True)
  show "gooseLane (footGoose (stateAfter (startGame fr g))) = 1"
    "position (footGoose (stateAfter (startGame fr g))) = vec (8/3) 0.75 15"
    "gooseVelocity (footGoose (stateAfter (startGame fr g))) = vec 0 0 0"
    "\<not> gooseIsJumping (footGoose (stateAfter (startGame fr g)))"
    "eggs (footGoose (stateAfter (startGame fr g))) = []"
    "jumpTimer (footGoose (stateAfter (startGame fr g))) = 0"
    "laneChangeTimer (footGoose (stateAfter (startGame fr g))) = 0"
    "eggThrowTimer (footGoose (stateAfter (startGame fr g))) = 0"
    "\<not> isThrowingEgg (footGoose (stateAfter (startGame fr g)))"
    unfolding e startGame_running_fields
    by (simp_all only: FootGoose_reset_fields not_False_eq_True)
next
  assume fresh: "\<not> isGameRunning g"
  show "startGame fr g =
        (case applyPurchasedPowerups (beforePowerups g) of
           Threw g3 \<Rightarrow> Threw g3
         | Returned g3 \<Rightarrow>
             Returned (resetCoinTracker
               (update fr (g3\<lparr>obstacles := [], spawnTimer := 0, spawnInterval := 2000\<rparr>))))"
    using fresh by (rule startGame_fresh)
  show "player (beforePowerups g) = reset (player g)"
    by (rule beforePowerups_fields)
  {
    assume sh: "isItemPurchased ''shield'' (shop g)"
    have t: "startGame fr g = Threw (stateAfter (applyPurchasedPowerups (beforePowerups g)))"
      using fresh sh by (rule startGame_fresh_throws)
    show "\<not> returned (startGame fr g)"
      unfolding t by (simp add: stateAfter_simps)
    show "isGameRunning (stateAfter (startGame fr g))"
      "isShielded (player (stateAfter (startGame fr g)))"
      "magnetRange (player (stateAfter (startGame fr g))) =
         (if isItemPurchased ''magnet'' (shop g) then 3 else 0)"
      "distanceTraveled (stateAfter (startGame fr g)) = 0"
      "obstacles (stateAfter (startGame fr g)) = obstacles g"
      "coinAwardTracker (stateAfter (startGame fr g)) = coinAwardTracker g"
      unfolding t using sh
      by (simp_all add: stateAfter_simps powerupState_fields powerupState_player)
  }
  {
    assume nsh: "\<not> isItemPurchased ''shield'' (shop g)"
    show "startGame fr g = Returned (resetCoinTracker (update fr (startGame_prepared g)))"
      using fresh nsh by (rule startGame_fresh_returns)
    show "\<not> isShielded (player (startGame_prepared g))"
      "magnetRange (player (startGame_prepared g)) =
         (if isItemPurchased ''magnet'' (shop g) then 3 else 0)"
      "distanceTraveled (startGame_prepared g) =
         (if isItemPurchased ''head_start'' (shop g) then 500 else 0)"
      using nsh by (simp_all add: startGame_prepared_player startGame_prepared_fields)
  }
qed

lemma findItem_head_start:
  "findItem ''head_start'' (newShop c) = Some (mkItem ''head_start'' 200 ''booster'' None None)"
  by (simp add: findItem_def newShop_def initializeItems_def mkItem_def)

lemma purchase_marks:
  "findItem k (newShop c) = Some item \<Longrightarrow> \<not> purchased item \<Longrightarrow> unlocked item \<Longrightarrow>
   price item \<le> c \<Longrightarrow>
   isItemPurchased j (snd (purchaseItem k (newShop c))) \<longleftrightarrow> j = k"
proof -
  assume f: "findItem k (newShop c) = Some item" and a: "\<not> purchased item" "unlocked item"
    "price item \<le> c"
  have s: "snd (purchaseItem k (newShop c)) =
             (newShop c)\<lparr>coins := c - price item, items := markPurchased k initializeItems\<rparr>"
    using f a by (simp add: purchaseItem_def) (simp add: newShop_def)
  show ?thesis
  proof (cases "j = k")
    case True
    have "find (\<lambda>i. item_id i = k) (markPurchased k initializeItems) =
            Some (item\<lparr>purchased := True\<rparr>)"
      using f by (intro find_markPurchased_same) (simp add: findItem_def newShop_def)
    then show ?thesis
      using True unfolding s by (simp add: isItemPurchased_def findItem_def)
  next
    case False
    have "findItem j (snd (purchaseItem k (newShop c))) = findItem j (newShop c)"
      unfolding s using False
      by (simp add: findItem_def find_markPurchased_other newShop_def)
    then show ?thesis
      using False newShop_nothing_purchased [of j c] by (simp add: isItemPurchased_def)
  qed
qed

lemma shieldShop_purchased: "isItemPurchased j shieldShop \<longleftrightarrow> j = ''shield''"
  unfolding shieldShop_def
  by (rule purchase_marks [OF findItem_shield]) (simp_all add: mkItem_def)

lemma headStartShop_purchased: "isItemPurchased j headStartShop \<longleftrightarrow> j = ''head_start''"
  unfolding headStartShop_def
  by (rule purchase_marks [OF findItem_head_start]) (simp_all add: mkItem_def)

lemma shieldedRun_fields:
  "isGameRunning shieldedRun"
  "isShielded (player shieldedRun)"
  "shop shieldedRun = shieldShop"
proof -
  have "startGame (quietFrame 0) (newGame shieldShop) =
          Threw (stateAfter (applyPurchasedPowerups (beforePowerups (newGame shieldShop))))"
    by (rule startGame_fresh_throws) (simp_all add: newGame_fields shieldShop_purchased)
  then have e: "shieldedRun =
      stateAfter (applyPurchasedPowerups (beforePowerups (newGame shieldShop)))"
    by (simp add: shieldedRun_def stateAfter_simps)
  show "isGameRunning shieldedRun" "isShielded (player shieldedRun)"
    "shop shieldedRun = shieldShop"
    unfolding e
    by (simp_all add: powerupState_fields powerupState_player newGame_fields
        shieldShop_purchased)
qed

theorem startGame_branches_witness:
  "\<not> isGameRunning (newGame shieldShop) \<and>
   isItemPurchased ''shield'' (shop (newGame shieldShop)) \<and>
   \<not> returned (startGame (quietFrame 0) (newGame shieldShop)) \<and>
   isGameRunning shieldedRun \<and>
   isShielded (player shieldedRun) \<and>
   distanceTraveled shieldedRun = 0 \<and>
   isItemPurchased ''shield'' (shop shieldedRun) \<and>
   returned (startGame (quietFrame 0) shieldedRun) \<and>
   \<not> isShielded (player (stateAfter (startGame (quietFrame 0) shieldedRun))) \<and>
   score (stateAfter (startGame (quietFrame 0) shieldedRun)) = 0 \<and>
   obstacles (stateAfter (startGame (quietFrame 0) shieldedRun)) = [] \<and>
   gooseLane (footGoose (stateAfter (startGame (quietFrame 0) shieldedRun))) = 1 \<and>
   isItemPurchased ''shield'' (shop (stateAfter (startGame (quietFrame 0) shieldedRun))) \<and>
   \<not> isGameRunning (newGame headStartShop) \<and>
   \<not> isItemPurchased ''shield'' (shop (newGame headStartShop)) \<and>
   isItemPurchased ''head_start'' (shop (newGame headStartShop)) \<and>
   returned (startGame (quietFrame 0) (newGame headStartShop)) \<and>
   distanceTraveled (startGame_prepared (newGame headStartShop)) = 500"
proof -
  note r = startGame_branches [of shieldedRun "quietFrame 0", THEN conjunct1, THEN mp,
      OF shieldedRun_fields(1)]
  note n = startGame_branches [of "newGame shieldShop" "quietFrame 0", THEN conjunct2,
      THEN mp, OF newGame_fields(1), THEN conjunct2, THEN conjunct2, THEN conjunct1, THEN mp]
  note h = startGame_branches [of "newGame headStartShop" "quietFrame 0", THEN conjunct2,
      THEN mp, OF newGame_fields(1), THEN conjunct2, THEN conjunct2, THEN conjunct2, THEN mp]
  have sp: "isItemPurchased ''shield'' (shop (newGame shieldShop))"
    by (simp add: newGame_fields shieldShop_purchased)
  have hp: "\<not> isItemPurchased ''shield'' (shop (newGame headStartShop))"
    "isItemPurchased ''head_start'' (shop (newGame headStartShop))"
    by (simp_all add: newGame_fields headStartShop_purchased)
  have n1: "\<not> returned (startGame (quietFrame 0) (newGame shieldShop))"
    using n [OF sp] by blast
  have n2: "distanceTraveled shieldedRun = 0"
    using n [OF sp] unfolding shieldedRun_def by blast
  have "startGame (quietFrame 0) shieldedRun =
        Returned ((updateScore (shieldedRun\<lparr>score := 0, distanceTraveled := 0,
                                 gameSpeed := GAME_SPEED\<rparr>))
          \<lparr>player := reset (player shieldedRun),
           footGoose := FootGoose_reset (footGoose shieldedRun),
           obstacles := [], spawnTimer := 0, spawnInterval := 2000\<rparr>)"
    using r by (rule conjunct1)
  then have r0: "returned (startGame (quietFrame 0) shieldedRun)"
    by (simp only: stateAfter_simps)
  have r1: "\<not> isShielded (player (stateAfter (startGame (quietFrame 0) shieldedRun)))"
    using r by blast
  have r2: "score (stateAfter (startGame (quietFrame 0) shieldedRun)) = 0"
    using r by blast
  have r3: "obstacles (stateAfter (startGame (quietFrame 0) shieldedRun)) = []"
    using r by blast
  have r5: "gooseLane (footGoose (stateAfter (startGame (quietFrame 0) shieldedRun))) = 1"
    using r by blast
  have "shop (stateAfter (startGame (quietFrame 0) shieldedRun)) = shop shieldedRun"
    using r by blast
  then have r4: "isItemPurchased ''shield''
      (shop (stateAfter (startGame (quietFrame 0) shieldedRun)))"
    by (simp add: shieldedRun_fields shieldShop_purchased)
  have "startGame (quietFrame 0) (newGame headStartShop) =
          Returned (resetCoinTracker
            (update (quietFrame 0) (startGame_prepared (newGame headStartShop))))"
    using h [OF hp(1)] by (rule conjunct1)
  then have h1: "returned (startGame (quietFrame 0) (newGame headStartShop))"
    by (simp only: stateAfter_simps)
  have h2: "distanceTraveled (startGame_prepared (newGame headStartShop)) = 500"
    using h [OF hp(1), THEN conjunct2, THEN conjunct2, THEN conjunct2] hp(2) by simp
  show ?thesis
    using sp hp n1 n2 r0 r1 r2 r3 r4 r5 h1 h2
    by (simp add: shieldedRun_fields newGame_fields)
qed

text \<open>
  With the head start bought, the first pass of \<open>update()\<close> inside \<open>startGame()\<close> awards
  the coins for score 500 before the tracker is cleared, and the next pass, still at score
  500, awards them again.
\<close>

lemma head_start_award_repeats:
  "score headStartRun = 500 \<and> coins (shop headStartRun) = 10 \<and>
   coinAwardTracker headStartRun = {} \<and>
   score (update (quietFrame 0) headStartRun) = 500 \<and>
   coins (shop (update (quietFrame 0) headStartRun)) = 20"
proof -
  let ?p = "startGame_prepared (newGame headStartShop)"
  have c: "coins headStartShop = 0"
    by (simp add: headStartShop_def purchaseItem_def findItem_head_start mkItem_def)
       (simp add: newShop_def)
  have e: "headStartRun = resetCoinTracker (update (quietFrame 0) ?p)"
    by (simp add: headStartRun_def startGame_fresh_returns newGame_fields
        headStartShop_purchased stateAfter_simps)
  have "scoring (update (quietFrame 0) ?p) = scoring (updateDistance 0 ?p)"
    using update_quiet_scoring [of ?p "quietFrame 0"]
    by (simp add: quietFrame_fields startGame_prepared_fields)
  then have f: "scoring (update (quietFrame 0) ?p) =
      (True, 500, 500, gameSpeed (update (quietFrame 0) ?p),
       highScore (update (quietFrame 0) ?p),
       availableCharacters (update (quietFrame 0) ?p), addCoins 10 headStartShop, {500})"
    by (simp add: scoring_def updateDistance_fields updateDistance_coins
        startGame_prepared_fields newGame_fields headStartShop_purchased)
  have h: "isGameRunning headStartRun" "score headStartRun = 500"
    "distanceTraveled headStartRun = 500" "shop headStartRun = addCoins 10 headStartShop"
    "coinAwardTracker headStartRun = {}"
    using f unfolding e by (simp_all add: scoring_def resetCoinTracker_def)
  have "scoring (update (quietFrame 0) headStartRun) =
          scoring (updateDistance 0 headStartRun)"
    using update_quiet_scoring [of headStartRun "quietFrame 0"]
    by (simp add: quietFrame_fields h)
  then have g: "score (update (quietFrame 0) headStartRun) = 500"
    "shop (update (quietFrame 0) headStartRun) = addCoins 10 (addCoins 10 headStartShop)"
    by (simp_all add: scoring_def updateDistance_fields updateDistance_coins h)
  show ?thesis
    by (simp add: h g addCoins_def c)
qed

section \<open>Game: the capture bonus\<close>

text \<open>
  C9. On a running game every pass of \<open>update()\<close> recomputes the score from the
  distance: the result does not depend on the score it starts with; the distance after the
  pass is the old distance plus speed times frame time (or 0 after a collision restart),
  never more; the score after the pass is the floor of that distance, plus 1000 exactly
  when the goose was caught in this pass. So after the next pass without a capture the
  score is the floor of the distance again. A pass with a capture is the same pass
  without it, followed by the addition of 1000, \<open>updateScore\<close> and the reset of the
  goose, and \<open>updateScore\<close> changes nothing but the high score, the character unlocks,
  the shop's coins and the award tracker.
\<close>

theorem capture_bonus_transient:
  "isGameRunning g \<longrightarrow>
     update fr (g\<lparr>score := s\<rparr>) = update fr g \<and>
     isGameRunning (update fr g) \<and>
     distanceTraveled (update fr g) =
       (if obstacleHit fr g then 0 else distanceTraveled g + gameSpeed g * deltaTime fr) \<and>
     score (update fr g) =
       \<lfloor>distanceTraveled (update fr g)\<rfloor> + (if boxesFootGoose fr then 1000 else 0) \<and>
     (\<not> boxesFootGoose fr' \<longrightarrow>
        score (update fr' (update fr g)) = \<lfloor>distanceTraveled (update fr' (update fr g))\<rfloor>) \<and>
     (boxesFootGoose fr \<longrightarrow>
        update fr g =
          (updateScore ((update (fr\<lparr>boxesFootGoose := False\<rparr>) g)
             \<lparr>score := score (update (fr\<lparr>boxesFootGoose := False\<rparr>) g) + 1000\<rparr>))
          \<lparr>footGoose :=
             FootGoose_reset (footGoose (update (fr\<lparr>boxesFootGoose := False\<rparr>) g))\<rparr>) \<and>
     updateScore g =
       g\<lparr>highScore := highScore (updateScore g),
         availableCharacters := availableCharacters (updateScore g),
         shop := shop (updateScore g),
         coinAwardTracker := coinAwardTracker (updateScore g)\<rparr>"
proof
  assume run: "isGameRunning g"
  have a: "update fr (g\<lparr>score := s\<rparr>) = update fr g"
    using run by (rule update_ignores_score)
  have b: "isGameRunning (update fr g)"
    using run by (rule update_fields)
  have c: "distanceTraveled (update fr g) =
       (if obstacleHit fr g then 0 else distanceTraveled g + gameSpeed g * deltaTime fr)"
    using run by (rule update_fields)
  have d: "score (update fr g) =
       \<lfloor>distanceTraveled (update fr g)\<rfloor> + (if boxesFootGoose fr then 1000 else 0)"
    using run by (rule update_fields)
  have e: "\<not> boxesFootGoose fr' \<longrightarrow>
        score (update fr' (update fr g)) = \<lfloor>distanceTraveled (update fr' (update fr g))\<rfloor>"
    using update_fields(3) [OF b, of fr'] by simp
  have f: "boxesFootGoose fr \<longrightarrow>
        update fr g =
          (updateScore ((update (fr\<lparr>boxesFootGoose := False\<rparr>) g)
             \<lparr>score := score (update (fr\<lparr>boxesFootGoose := False\<rparr>) g) + 1000\<rparr>))
          \<lparr>footGoose :=
             FootGoose_reset (footGoose (update (fr\<lparr>boxesFootGoose := False\<rparr>) g))\<rparr>"
    using update_capture [OF run] by blast
  have h: "updateScore g =
       g\<lparr>highScore := highScore (updateScore g),
         availableCharacters := availableCharacters (updateScore g),
         shop := shop (updateScore g),
         coinAwardTracker := coinAwardTracker (updateScore g)\<rparr>"
    by (rule updateScore_frame)
  from a b c d e f h
  show "update fr (g\<lparr>score := s\<rparr>) = update fr g \<and>
     isGameRunning (update fr g) \<and>
     distanceTraveled (update fr g) =
       (if obstacleHit fr g then 0 else distanceTraveled g + gameSpeed g * deltaTime fr) \<and>
     score (update fr g) =
       \<lfloor>distanceTraveled (update fr g)\<rfloor> + (if boxesFootGoose fr then 1000 else 0) \<and>
     (\<not> boxesFootGoose fr' \<longrightarrow>
        score (update fr' (update fr g)) = \<lfloor>distanceTraveled (update fr' (update fr g))\<rfloor>) \<and>
     (boxesFootGoose fr \<longrightarrow>
        update fr g =
          (updateScore ((update (fr\<lparr>boxesFootGoose := False\<rparr>) g)
             \<lparr>score := score (update (fr\<lparr>boxesFootGoose := False\<rparr>) g) + 1000\<rparr>))
          \<lparr>footGoose :=
             FootGoose_reset (footGoose (update (fr\<lparr>boxesFootGoose := False\<rparr>) g))\<rparr>) \<and>
     updateScore g =
       g\<lparr>highScore := highScore (updateScore g),
         availableCharacters := availableCharacters (updateScore g),
         shop := shop (updateScore g),
         coinAwardTracker := coinAwardTracker (updateScore g)\<rparr>"
    by (intro conjI)
qed

theorem capture_bonus_transient_witness:
  "isGameRunning startedGame \<and> boxesFootGoose captureFrame \<and>
   \<not> boxesFootGoose (quietFrame (1/10)) \<and>
   update captureFrame (startedGame\<lparr>score := 7\<rparr>) = update captureFrame startedGame \<and>
   distanceTraveled (update captureFrame startedGame) = 2 \<and>
   score (update captureFrame startedGame) = 1002 \<and>
   score (update (quietFrame (1/10)) (update captureFrame startedGame)) =
     \<lfloor>distanceTraveled (update (quietFrame (1/10)) (update captureFrame startedGame))\<rfloor>"
proof -
  have c: "boxesFootGoose captureFrame" "deltaTime captureFrame = 1/10"
    "\<And>ob. \<not> boxesObstacle captureFrame ob"
    by (simp_all add: captureFrame_def quietFrame_def)
  have h: "\<not> obstacleHit captureFrame startedGame"
    by (rule obstacleHit_no_boxes) (rule c)
  note t = capture_bonus_transient [of startedGame captureFrame 7 "quietFrame (1/10)",
      THEN mp, OF startedGame_fields(1)]
  have t1: "update captureFrame (startedGame\<lparr>score := 7\<rparr>) = update captureFrame startedGame"
    using t by (rule conjunct1)
  have t3: "distanceTraveled (update captureFrame startedGame) = 2"
    using t [THEN conjunct2, THEN conjunct2, THEN conjunct1]
    by (simp add: startedGame_fields c h)
  have t4: "score (update captureFrame startedGame) = 1002"
    using t [THEN conjunct2, THEN conjunct2, THEN conjunct2, THEN conjunct1]
    by (simp add: t3 c)
  have t5: "score (update (quietFrame (1/10)) (update captureFrame startedGame)) =
     \<lfloor>distanceTraveled (update (quietFrame (1/10)) (update captureFrame startedGame))\<rfloor>"
    using t [THEN conjunct2, THEN conjunct2, THEN conjunct2, THEN conjunct2, THEN conjunct1]
    by (simp add: quietFrame_fields)
  show ?thesis
    using t1 t3 t4 t5 by (simp add: startedGame_fields c quietFrame_fields)
qed

end
